theory Spec2Isabelle
  imports
    Main
    "HOL-Library.Word"
    "HOL-Library.Finite_Map"
    "HOL-Library.Sublist"
    "HOL-Library.Char_ord"
    "HOL-Library.List_Lexorder"
begin

unbundle bit_operations_syntax

section \<open>Machine data\<close>

type_synonym byte = "8 word"
type_synonym u64 = "64 word"

text \<open>
  A call either returns, panics (\<open>logger.Panic\<close>, \<open>logger.Panicf\<close>, \<open>panic\<close> and the
  runtime's bounds checks; the string is the message the source gives) or waits on a
  channel that nobody fills while the call is the only one running.
\<close>

datatype failure = Panic string | Blocked

text \<open>\<open>binary.LittleEndian.PutUint64\<close> and \<open>binary.LittleEndian.Uint64\<close>.\<close>

definition PutUint64 :: "u64 \<Rightarrow> byte list" where
  "PutUint64 v = map (\<lambda>i. ucast (drop_bit (8 * i) v)) [0..<8]"

definition le_uint64 :: "byte list \<Rightarrow> u64" where
  "le_uint64 b = horner_sum ucast (256 :: u64) (take 8 b)"

definition Uint64 :: "byte list \<Rightarrow> failure + u64" where
  "Uint64 b =
     (if length b < 8 then Inl (Panic ''index out of range'') else Inr (le_uint64 b))"

text \<open>The verbs \<open>%02x\<close>, \<open>%010x\<close>, \<open>%011x\<close> on integers and \<open>%032x\<close> on a uuid.\<close>

definition hexdigit :: "nat \<Rightarrow> char" where
  "hexdigit n = ''0123456789abcdef'' ! (n mod 16)"

definition hex_fixed :: "nat \<Rightarrow> nat \<Rightarrow> string" where
  "hex_fixed w n = map (\<lambda>i. hexdigit (n div 16 ^ (w - 1 - i))) [0..<w]"

definition hex_bytes :: "byte list \<Rightarrow> string" where
  "hex_bytes bs = concat (map (\<lambda>b. hex_fixed 2 (unat b)) bs)"

text \<open>
  \<open>%032x\<close> of a byte slice or array: two digits a byte, padded on the left to 32
  characters. Every uuid of the callers has 16 bytes, where nothing is padded.
\<close>

definition hex32 :: "byte list \<Rightarrow> string" where
  "hex32 bs = replicate (32 - length (hex_bytes bs)) (CHR ''0'') @ hex_bytes bs"

section \<open>Constants of the Ceph provider\<close>

definition NUM_RHANDLES :: nat where "NUM_RHANDLES = 16"
definition NUM_WHANDLES :: nat where "NUM_WHANDLES = 16"
definition ADDR_LOCK_SIZE :: u64 where "ADDR_LOCK_SIZE = 0x1000000000"
definition ADDR_OBJ_SIZE :: u64 where "ADDR_OBJ_SIZE = 0x0001000000"
definition MAX_EXPECTED_OBJECT_SIZE :: nat where "MAX_EXPECTED_OBJECT_SIZE = 20485"
definition OFFSET_MASK :: u64 where "OFFSET_MASK = 0xFFFFFF"
definition R_CHUNKSIZE :: nat where "R_CHUNKSIZE = 2 ^ 20"
definition WORTH_CACHING :: u64 where
  "WORTH_CACHING = OFFSET_MASK - of_nat MAX_EXPECTED_OBJECT_SIZE"
definition SEGCACHE_SIZE :: nat where "SEGCACHE_SIZE = 1024"
definition WCACHE_SIZE :: nat where "WCACHE_SIZE = 2 ^ 20"
definition ALLOC_CHAN_CAP :: nat where "ALLOC_CHAN_CAP = 128"

text \<open>
  Modelled from the spec: \<open>R_ADDRMASK\<close> and \<open>R_OFFSETMASK\<close> are declared with the chunk
  cache, whose file is not among the sources. The spec fetches the chunk at
  \<open>address & ~(1 MiB - 1)\<close> and slices it from \<open>address & (1 MiB - 1)\<close>.
\<close>

definition R_OFFSETMASK :: u64 where "R_OFFSETMASK = 0xFFFFF"
definition R_ADDRMASK :: u64 where "R_ADDRMASK = NOT R_OFFSETMASK"

section \<open>The object store\<close>

text \<open>
  The RADOS cluster is reached through the go-ceph client, which is not part of the
  repository. An object has data, extended attributes and an ordered key/value map; an
  operation on an object that does not exist answers \<open>RadosErrorNotFound\<close>, and the
  objects in \<open>faulty\<close> answer every operation with some other error.
\<close>

datatype rados_error = RadosErrorNotFound | RadosErrorOther

record rados_obj =
  odata :: "byte list"
  oxattrs :: "(string \<times> byte list) list"
  oomap :: "(string \<times> byte list) list"

record rados =
  objs :: "string \<rightharpoonup> rados_obj"
  faulty :: "string \<Rightarrow> bool"

definition empty_obj :: rados_obj where
  "empty_obj = \<lparr>odata = [], oxattrs = [], oomap = []\<rparr>"

definition obj_or_new :: "rados \<Rightarrow> string \<Rightarrow> rados_obj" where
  "obj_or_new st oid = (case objs st oid of None \<Rightarrow> empty_obj | Some ob \<Rightarrow> ob)"

text \<open>\<open>Read(oid, buf, offset)\<close> with a buffer of \<open>n\<close> bytes: the bytes read.\<close>

definition rados_Read :: "rados \<Rightarrow> string \<Rightarrow> nat \<Rightarrow> nat \<Rightarrow> rados_error + byte list" where
  "rados_Read st oid n off =
     (if faulty st oid then Inl RadosErrorOther
      else case objs st oid of
             None \<Rightarrow> Inl RadosErrorNotFound
           | Some ob \<Rightarrow> Inr (take n (drop off (odata ob))))"

definition write_at :: "byte list \<Rightarrow> nat \<Rightarrow> byte list \<Rightarrow> byte list" where
  "write_at old off new =
     take off (old @ replicate (off - length old) 0) @ new @ drop (off + length new) old"

definition rados_Write ::
  "rados \<Rightarrow> string \<Rightarrow> byte list \<Rightarrow> nat \<Rightarrow> rados_error option \<times> rados" where
  "rados_Write st oid dat off =
     (if faulty st oid then (Some RadosErrorOther, st)
      else let ob = obj_or_new st oid
           in (None, st\<lparr>objs := (objs st)(oid \<mapsto> ob\<lparr>odata := write_at (odata ob) off dat\<rparr>)\<rparr>))"

definition rados_WriteFull :: "rados \<Rightarrow> string \<Rightarrow> byte list \<Rightarrow> rados_error option \<times> rados" where
  "rados_WriteFull st oid dat =
     (if faulty st oid then (Some RadosErrorOther, st)
      else let ob = obj_or_new st oid
           in (None, st\<lparr>objs := (objs st)(oid \<mapsto> ob\<lparr>odata := dat\<rparr>)\<rparr>))"

section \<open>Segments\<close>

text \<open>
  A Go slice is its elements together with the bytes that lie between its length and
  its capacity, which a reslice can bring back.
\<close>

record slice =
  elems :: "byte list"
  spare :: "byte list"

record CephSegment =
  seg_ptr :: u64
  naddr :: u64
  base :: u64
  warrs :: "byte list list"
  uid :: "byte list"
  wcache :: "byte list"
  wcache_cap :: nat
  wcache_base :: u64
  hi :: nat

text \<open>
  The provider. \<open>conn\<close> is the cluster that the read and write handles open;
  the channels \<open>rhidx\<close>, \<open>rhidx_ret\<close>, \<open>whidx\<close>, \<open>whidx_ret\<close> and \<open>alloc\<close> are the
  queues of what they hold. The counters kept for logging (\<open>totalbytes\<close>,
  \<open>actualread\<close>, \<open>readused\<close> with \<open>excludemap\<close>, \<open>provided_rh\<close>) carry no behaviour
  and are left out, and so are the mutexes: every function below is one critical section.
\<close>

record provider =
  conn :: rados
  rhidx :: "nat list"
  rhidx_ret :: "nat list"
  whidx :: "nat list"
  whidx_ret :: "nat list"
  ptr :: u64
  alloc :: "u64 list"
  segaddrcache :: "(byte list, u64) fmap"
  rcache :: "u64 \<rightharpoonup> slice"

text \<open>
  Modelled from the spec: the chunk cache \<open>rcache\<close> (type \<open>CephCache\<close>, whose file is not
  among the sources) is a map from chunk-aligned addresses to chunks: \<open>cacheGet\<close>
  returns the cached chunk or none, \<open>cachePut\<close> inserts, \<open>cacheInvalidate\<close> removes the
  entry, \<open>getBlank\<close> gives a buffer of one chunk (1 MiB).
\<close>

definition cacheGet :: "(u64 \<rightharpoonup> slice) \<Rightarrow> u64 \<Rightarrow> slice option" where
  "cacheGet c a = c a"

definition cachePut :: "(u64 \<rightharpoonup> slice) \<Rightarrow> u64 \<Rightarrow> slice \<Rightarrow> (u64 \<rightharpoonup> slice)" where
  "cachePut c a chunk = c(a \<mapsto> chunk)"

definition cacheInvalidate :: "(u64 \<rightharpoonup> slice) \<Rightarrow> u64 \<Rightarrow> (u64 \<rightharpoonup> slice)" where
  "cacheInvalidate c a = c(a := None)"

definition getBlank :: "byte list" where
  "getBlank = replicate R_CHUNKSIZE 0"

definition UUIDSliceToArr :: "byte list \<Rightarrow> byte list" where
  "UUIDSliceToArr ident = take 16 ident @ replicate (16 - length ident) 0"

text \<open>The object that holds an address: \<open>fmt.Sprintf("%032x%010x", uuid, address >> 24)\<close>.\<close>

definition data_oid :: "byte list \<Rightarrow> u64 \<Rightarrow> string" where
  "data_oid u address = hex32 u @ hex_fixed 10 (unat (drop_bit 24 address))"

text \<open>
  The loop of \<open>flushWrite\<close>: one invalidation for every \<open>R_CHUNKSIZE\<close> bytes of the
  buffer, at \<open>i = 0, R_CHUNKSIZE, ...\<close> below its length.
\<close>

definition flush_invalidate :: "(u64 \<rightharpoonup> slice) \<Rightarrow> u64 \<Rightarrow> nat \<Rightarrow> (u64 \<rightharpoonup> slice)" where
  "flush_invalidate c wbase len =
     fold (\<lambda>k c'. cacheInvalidate c' ((of_nat (k * R_CHUNKSIZE) + wbase) AND R_ADDRMASK))
          [0..<(len + R_CHUNKSIZE - 1) div R_CHUNKSIZE] c"

text \<open>\<open>flushWrite\<close> ignores the error of the store's \<open>Write\<close>.\<close>

definition flushWrite :: "provider \<Rightarrow> CephSegment \<Rightarrow> provider \<times> CephSegment" where
  "flushWrite sp seg =
     (if length (wcache seg) = 0 then (sp, seg)
      else
        let address = wcache_base seg;
            oid = data_oid (uid seg) address;
            offset = address AND 0xFFFFFF;
            st' = snd (rados_Write (conn sp) oid (wcache seg) (unat offset));
            rc' = flush_invalidate (rcache sp) (wcache_base seg) (length (wcache seg))
        in (sp\<lparr>conn := st', rcache := rc'\<rparr>,
            seg\<lparr>warrs := warrs seg @ [wcache seg],
                wcache := [],
                wcache_cap := WCACHE_SIZE,
                wcache_base := naddr seg\<rparr>))"

text \<open>
  \<open>Write\<close>. The capacity that \<open>append\<close> gives a slice it has to grow is chosen by the
  Go runtime: \<open>grow old needed\<close> stands for it. The result carries the provider and
  the segment as the call leaves them, also when it does not return an address.
\<close>

definition crosses :: "u64 \<Rightarrow> u64 \<Rightarrow> bool" where
  "crosses address naddr' \<longleftrightarrow>
     drop_bit 24 (naddr' + of_nat MAX_EXPECTED_OBJECT_SIZE + 2) \<noteq> drop_bit 24 address"

definition Write ::
  "(nat \<Rightarrow> nat \<Rightarrow> nat) \<Rightarrow> provider \<Rightarrow> CephSegment \<Rightarrow> byte list \<Rightarrow> u64 \<Rightarrow> byte list
     \<Rightarrow> (failure + u64) \<times> provider \<times> CephSegment" where
  "Write grow sp seg uuid address dat =
     (if address \<noteq> naddr seg then (Inl (Panic ''Non-sequential write''), sp, seg)
      else
        let (sp1, seg1) =
              (if length (wcache seg) + length dat + 2 > wcache_cap seg
               then flushWrite sp seg else (sp, seg));
            b = length (wcache seg1)
        in if b + 2 > wcache_cap seg1
           then (Inl (Panic ''slice bounds out of range''), sp1, seg1)
           else
             let buf = wcache seg1 @ [of_nat (length dat), of_nat (length dat div 256)] @ dat;
                 seg2 = seg1\<lparr>wcache := buf,
                            wcache_cap := (if length buf \<le> wcache_cap seg1 then wcache_cap seg1
                                           else grow (wcache_cap seg1) (length buf))\<rparr>;
                 naddr' = address + of_nat (length dat + 2)
             in if crosses address naddr' then
                  (case alloc sp1 of
                     [] \<Rightarrow> (Inl Blocked, sp1, seg2)
                   | a # rest \<Rightarrow>
                       let (sp3, seg3) = flushWrite (sp1\<lparr>alloc := rest\<rparr>) (seg2\<lparr>naddr := a\<rparr>)
                       in (Inr a, sp3, seg3))
                else (Inr naddr', sp1, seg2\<lparr>naddr := naddr'\<rparr>))"

text \<open>\<open>pruneSegCache\<close>, \<open>LockSegment\<close> and \<open>Unlock\<close>.\<close>

definition pruneSegCache :: "provider \<Rightarrow> provider" where
  "pruneSegCache sp =
     (if fcard (fmdom (segaddrcache sp)) \<ge> SEGCACHE_SIZE
      then sp\<lparr>segaddrcache := fmempty\<rparr> else sp)"

definition LockSegment :: "provider \<Rightarrow> byte list \<Rightarrow> failure + (CephSegment \<times> provider)" where
  "LockSegment sp uuid =
     (case whidx sp of
        [] \<Rightarrow> Inl Blocked
      | h # hs \<Rightarrow>
          (case alloc sp of
             [] \<Rightarrow> Inl Blocked
           | p # ps \<Rightarrow>
               let u = UUIDSliceToArr uuid;
                   cached = fmlookup (segaddrcache sp) u;
                   sp' = sp\<lparr>whidx := hs, alloc := ps,
                            segaddrcache := (case cached of
                                               Some c \<Rightarrow> fmdrop u (segaddrcache sp)
                                             | None \<Rightarrow> segaddrcache sp)\<rparr>;
                   b = (case cached of Some c \<Rightarrow> c | None \<Rightarrow> p)
               in Inr (\<lparr>seg_ptr = p, naddr = b, base = b, warrs = [], uid = u,
                        wcache = [], wcache_cap = WCACHE_SIZE, wcache_base = b, hi = h\<rparr>,
                       sp')))"

definition Unlock :: "provider \<Rightarrow> CephSegment \<Rightarrow> failure + (provider \<times> CephSegment)" where
  "Unlock sp seg =
     (let (sp1, seg1) = flushWrite sp seg
      in if length (whidx_ret sp1) \<ge> NUM_WHANDLES + 1 then Inl Blocked
         else
           let sp2 = sp1\<lparr>whidx_ret := whidx_ret sp1 @ [hi seg1]\<rparr>;
               seg2 = seg1\<lparr>warrs := []\<rparr>
           in if (naddr seg2 AND OFFSET_MASK) < WORTH_CACHING then
                let sp3 = pruneSegCache sp2
                in Inr (sp3\<lparr>segaddrcache := fmupd (uid seg2) (naddr seg2) (segaddrcache sp3)\<rparr>,
                        seg2)
              else Inr (sp2, seg2))"

section \<open>Concrete states\<close>

text \<open>
  An empty, healthy cluster; a provider as \<open>Initialize\<close> leaves it once two allocations
  wait in the channel; a segment of the stream \<open>uuid1\<close> whose next address lies 20484
  bytes before the end of object 1.
\<close>

definition store0 :: rados where
  "store0 = \<lparr>objs = Map.empty, faulty = (\<lambda>oid. False)\<rparr>"

definition sp0 :: provider where
  "sp0 = \<lparr>conn = store0, rhidx = [0, 1], rhidx_ret = [], whidx = [0, 1], whidx_ret = [],
          ptr = 0x4000000, alloc = [0x2000000, 0x3000000],
          segaddrcache = fmempty, rcache = Map.empty\<rparr>"

definition uuid1 :: "byte list" where
  "uuid1 = replicate 16 1"

definition seg_late :: CephSegment where
  "seg_late = \<lparr>seg_ptr = 0x1000000, naddr = 0x1FFAFFC, base = 0x1000000, warrs = [],
               uid = uuid1, wcache = [], wcache_cap = WCACHE_SIZE,
               wcache_base = 0x1FFAFFC, hi = 0\<rparr>"

definition grow_exact :: "nat \<Rightarrow> nat \<Rightarrow> nat" where
  "grow_exact old needed = needed"

section \<open>Sequences of operations on the provider\<close>

text \<open>
  What happens to a provider between its start and any later moment: segments are
  locked, segments are unlocked (in whatever state the writes in between have left
  them), and everything else runs. Whatever else runs (writes, reads, the goroutines
  that fill the channels, the stream catalogue) leaves \<open>segaddrcache\<close> alone:
  \<open>Initialize\<close>, \<open>LockSegment\<close>, \<open>Unlock\<close> and \<open>pruneSegCache\<close> are the only places of the
  source that assign it. A call that blocks has not happened.
\<close>

datatype seg_op = OpLockSegment "byte list" | OpUnlock CephSegment | OpElse provider

fun apply_op :: "provider \<Rightarrow> seg_op \<Rightarrow> provider" where
  "apply_op sp (OpLockSegment uuid) =
     (case LockSegment sp uuid of Inl e \<Rightarrow> sp | Inr (seg, sp') \<Rightarrow> sp')"
| "apply_op sp (OpUnlock seg) =
     (case Unlock sp seg of Inl e \<Rightarrow> sp | Inr (sp', seg') \<Rightarrow> sp')"
| "apply_op sp (OpElse sp') = sp'\<lparr>segaddrcache := segaddrcache sp\<rparr>"

definition run_ops :: "provider \<Rightarrow> seg_op list \<Rightarrow> provider" where
  "run_ops sp ops = foldl apply_op sp ops"

text \<open>
  A segment of the stream \<open>uuid1\<close> early in object 1, and a provider whose
  segment-address cache holds 1024 streams.
\<close>

definition seg_early :: CephSegment where
  "seg_early = \<lparr>seg_ptr = 0x1000000, naddr = 0x1000006, base = 0x1000000, warrs = [],
                uid = uuid1, wcache = [4, 0, 1, 2, 3, 4], wcache_cap = WCACHE_SIZE,
                wcache_base = 0x1000000, hi = 0\<rparr>"

definition uuid_of_nat :: "nat \<Rightarrow> byte list" where
  "uuid_of_nat n = [of_nat (n div 256), of_nat n] @ replicate 14 0"

definition full_cache :: "(byte list, u64) fmap" where
  "full_cache = fmap_of_list (map (\<lambda>n. (uuid_of_nat n, 0x1000000)) [0..<1024])"

definition sp_full :: provider where
  "sp_full = sp0\<lparr>segaddrcache := full_cache\<rparr>"

section \<open>The address allocator\<close>

text \<open>
  Receiving a read handle and giving it back. \<open>GetRH\<close> gives up after ten seconds
  without a handle and panics; the channel of returned handles holds
  \<open>NUM_RHANDLES + 1\<close> indices.
\<close>

definition GetRH :: "provider \<Rightarrow> failure + (nat \<times> provider)" where
  "GetRH sp =
     (case rhidx sp of
        [] \<Rightarrow> Inl (Panic ''gottem %d'')
      | h # hs \<Rightarrow> Inr (h, sp\<lparr>rhidx := hs\<rparr>))"

definition send_rhidx_ret :: "provider \<Rightarrow> nat \<Rightarrow> failure + provider" where
  "send_rhidx_ret sp h =
     (if length (rhidx_ret sp) \<ge> NUM_RHANDLES + 1 then Inl Blocked
      else Inr (sp\<lparr>rhidx_ret := rhidx_ret sp @ [h]\<rparr>))"

text \<open>
  \<open>obtainBaseAddress\<close> reserves a lock range: it reads the counter of the object
  \<open>allocator\<close>, writes it back advanced by \<open>ADDR_LOCK_SIZE\<close> and returns what it read;
  when the read fails or is short it returns 0. The advisory lock it takes around the
  two, whose result it ignores, orders it with the other nodes and is left out.
\<close>

definition obtainBaseAddress :: "provider \<Rightarrow> failure + (u64 \<times> provider)" where
  "obtainBaseAddress sp =
     (case rhidx sp of
        [] \<Rightarrow> Inl Blocked
      | h # hs \<Rightarrow>
          let sp1 = sp\<lparr>rhidx := hs\<rparr>
          in (case rados_Read (conn sp1) ''allocator'' 8 0 of
                Inl err \<Rightarrow>
                  (case send_rhidx_ret sp1 h of Inl e \<Rightarrow> Inl e | Inr sp2 \<Rightarrow> Inr (0, sp2))
              | Inr addr \<Rightarrow>
                  if length addr \<noteq> 8 then
                    (case send_rhidx_ret sp1 h of Inl e \<Rightarrow> Inl e | Inr sp2 \<Rightarrow> Inr (0, sp2))
                  else
                    let le = le_uint64 addr;
                        ne = le + ADDR_LOCK_SIZE;
                        (err, st') = rados_WriteFull (conn sp1) ''allocator'' (PutUint64 ne)
                    in if err \<noteq> None then Inl (Panic ''b'')
                       else (case send_rhidx_ret (sp1\<lparr>conn := st'\<rparr>) h of
                               Inl e \<Rightarrow> Inl e
                             | Inr sp2 \<Rightarrow> Inr (le, sp2))))"

text \<open>
  One turn of the loop of \<open>provideAllocs\<close>, whose local variable \<open>base\<close> is \<open>b\<close>, and
  \<open>n\<close> turns of it. The loop never ends by itself: \<open>n\<close> is how far it has come. The
  goroutine starts the loop with \<open>base = sp.ptr\<close>.
\<close>

definition provideAllocs_iter :: "u64 \<Rightarrow> provider \<Rightarrow> failure + (u64 \<times> provider)" where
  "provideAllocs_iter b sp =
     (if length (alloc sp) \<ge> ALLOC_CHAN_CAP then Inl Blocked
      else
        let sp1 = sp\<lparr>alloc := alloc sp @ [ptr sp]\<rparr>;
            sp2 = sp1\<lparr>ptr := ptr sp1 + ADDR_OBJ_SIZE\<rparr>
        in if ptr sp2 \<ge> b + ADDR_LOCK_SIZE then
             (case obtainBaseAddress sp2 of
                Inl e \<Rightarrow> Inl e
              | Inr (p, sp3) \<Rightarrow> Inr (p, sp3\<lparr>ptr := p\<rparr>))
           else Inr (b, sp2))"

fun provideAllocs_loop :: "nat \<Rightarrow> u64 \<Rightarrow> provider \<Rightarrow> failure + (u64 \<times> provider)" where
  "provideAllocs_loop 0 b sp = Inr (b, sp)"
| "provideAllocs_loop (Suc n) b sp =
     (case provideAllocs_iter b sp of
        Inl e \<Rightarrow> Inl e
      | Inr (b', sp') \<Rightarrow> provideAllocs_loop n b' sp')"

definition provideAllocs :: "nat \<Rightarrow> provider \<Rightarrow> failure + (u64 \<times> provider)" where
  "provideAllocs n sp = provideAllocs_loop n (ptr sp) sp"

text \<open>
  Two calls of \<open>Write\<close> on one segment, the second at the address the first returned:
  the two addresses returned.
\<close>

definition two_writes ::
  "(nat \<Rightarrow> nat \<Rightarrow> nat) \<Rightarrow> provider \<Rightarrow> CephSegment \<Rightarrow> byte list \<Rightarrow> byte list \<Rightarrow> byte list
     \<Rightarrow> failure + (u64 \<times> u64)" where
  "two_writes grow sp seg uuid d1 d2 =
     (case Write grow sp seg uuid (naddr seg) d1 of
        (Inl e, sp1, seg1) \<Rightarrow> Inl e
      | (Inr a1, sp1, seg1) \<Rightarrow>
          (case Write grow sp1 seg1 uuid a1 d2 of
             (Inl e, sp2, seg2) \<Rightarrow> Inl e
           | (Inr a2, sp2, seg2) \<Rightarrow> Inr (a1, a2)))"

text \<open>
  The cluster after \<open>CreateDatabase\<close> and one reservation, with an \<open>allocator\<close> object
  that answers with an error; the provider whose loop, started at \<open>0x1000000\<close>, is about
  to offer the last allocation of its lock range; a segment of \<open>uuid1\<close> 20496 bytes
  before the end of object \<open>0xFFF\<close>; another stream.
\<close>

definition store_fault :: rados where
  "store_fault =
     \<lparr>objs = [''allocator'' \<mapsto> \<lparr>odata = PutUint64 0x1001000000, oxattrs = [], oomap = []\<rparr>],
      faulty = (\<lambda>oid. oid = ''allocator'')\<rparr>"

definition sp_end :: provider where
  "sp_end = \<lparr>conn = store_fault, rhidx = [0, 1], rhidx_ret = [], whidx = [0, 1],
             whidx_ret = [], ptr = 0x1000000000, alloc = [],
             segaddrcache = fmempty, rcache = Map.empty\<rparr>"

definition seg_last :: CephSegment where
  "seg_last = \<lparr>seg_ptr = 0xFFF000000, naddr = 0xFFFFFAFF0, base = 0xFFF000000, warrs = [],
               uid = uuid1, wcache = [], wcache_cap = WCACHE_SIZE,
               wcache_base = 0xFFFFFAFF0, hi = 1\<rparr>"

definition uuid2 :: "byte list" where
  "uuid2 = replicate 16 2"




section \<open>Reading a blob\<close>

text \<open>
  \<open>rawObtainChunk\<close> fills a blank buffer from the object that holds the chunk and keeps
  what was read, with the rest of the buffer as spare capacity. \<open>obtainChunk\<close> answers
  from the cache or has \<open>rawObtainChunk\<close> run in a goroutine of its own, which hands
  its result to every caller waiting for that chunk; a caller by itself waits for
  that result. A panic in that goroutine stops the process as one in the caller does.
\<close>

definition rawObtainChunk ::
  "provider \<Rightarrow> byte list \<Rightarrow> u64 \<Rightarrow> failure + (slice \<times> provider)" where
  "rawObtainChunk sp uuid address =
     (case cacheGet (rcache sp) address of
        Some chunk \<Rightarrow> Inr (chunk, sp)
      | None \<Rightarrow>
          (case GetRH sp of
             Inl e \<Rightarrow> Inl e
           | Inr (h, sp1) \<Rightarrow>
               (case rados_Read (conn sp1) (data_oid uuid address) (length getBlank)
                       (unat (address AND 0xFFFFFF)) of
                  Inl err \<Rightarrow> Inl (Panic ''ceph error: %v'')
                | Inr bs \<Rightarrow>
                    let chunk = \<lparr>elems = bs, spare = drop (length bs) getBlank\<rparr>
                    in (case send_rhidx_ret sp1 h of
                          Inl e \<Rightarrow> Inl e
                        | Inr sp2 \<Rightarrow>
                            Inr (chunk, sp2\<lparr>rcache := cachePut (rcache sp2) address chunk\<rparr>)))))"

definition obtainChunk ::
  "provider \<Rightarrow> byte list \<Rightarrow> u64 \<Rightarrow> failure + (slice \<times> provider)" where
  "obtainChunk sp uuid address =
     (case cacheGet (rcache sp) address of
        Some chunk \<Rightarrow> Inr (chunk, sp)
      | None \<Rightarrow> rawObtainChunk sp uuid address)"

text \<open>
  The first part of \<open>Read\<close>, up to the decoded length: the first chunk from the offset
  of the address on, the two bytes of the length prefix from it, or one byte from it
  and one from the next chunk. It gives the length \<open>ln\<close>, what is left of \<open>chunk1\<close>,
  \<open>chunk2\<close> if it has been fetched, and the provider.
\<close>

definition Read_prefix ::
  "provider \<Rightarrow> byte list \<Rightarrow> u64
     \<Rightarrow> failure + (nat \<times> byte list \<times> slice option \<times> provider)" where
  "Read_prefix sp uuid address =
     (case obtainChunk sp uuid (address AND R_ADDRMASK) of
        Inl e \<Rightarrow> Inl e
      | Inr (c1, sp1) \<Rightarrow>
          let off = unat (address AND R_OFFSETMASK)
          in if off > length (elems c1) then Inl (Panic ''slice bounds out of range'')
             else
               let chunk1 = drop off (elems c1)
               in if length chunk1 < 2 then
                    (case obtainChunk sp1 uuid ((address + of_nat R_CHUNKSIZE) AND R_ADDRMASK) of
                       Inl e \<Rightarrow> Inl e
                     | Inr (c2, sp2) \<Rightarrow>
                         if chunk1 = [] \<or> elems c2 = [] then Inl (Panic ''index out of range'')
                         else Inr (unat (chunk1 ! 0) + unat (elems c2 ! 0) * 256,
                                   drop 1 chunk1,
                                   Some (c2\<lparr>elems := drop 1 (elems c2)\<rparr>),
                                   sp2))
                  else Inr (unat (chunk1 ! 0) + unat (chunk1 ! 1) * 256,
                            drop 2 chunk1, None, sp1))"

text \<open>
  \<open>Read\<close>. The buffer is the caller's; the result is \<open>buffer[:ln]\<close> after the copies.
  \<open>copy\<close> moves as many bytes as the shorter of its two slices has.
\<close>

definition copy_into :: "byte list \<Rightarrow> byte list \<Rightarrow> byte list" where
  "copy_into dst src = take (length dst) src @ drop (length src) dst"

definition Read ::
  "provider \<Rightarrow> byte list \<Rightarrow> u64 \<Rightarrow> slice \<Rightarrow> failure + (byte list \<times> provider)" where
  "Read sp uuid address buffer =
     (case Read_prefix sp uuid address of
        Inl e \<Rightarrow> Inl e
      | Inr (ln, chunk1, chunk2, sp1) \<Rightarrow>
          if ln > MAX_EXPECTED_OBJECT_SIZE then Inl (Panic ''WTUF: '')
          else
            let end = (if length chunk1 < ln then length chunk1 else ln);
                copied = (if length chunk1 > 0 then min (length (elems buffer)) end else 0);
                buf1 = (if length chunk1 > 0 then copy_into (elems buffer) (take end chunk1)
                        else elems buffer)
            in (case (if copied < ln then
                        (case (case chunk2 of
                                 None \<Rightarrow> obtainChunk sp1 uuid
                                            ((address + of_nat R_CHUNKSIZE) AND R_ADDRMASK)
                               | Some c2 \<Rightarrow> Inr (c2, sp1)) of
                           Inl e \<Rightarrow> Inl e
                         | Inr (c2, sp2) \<Rightarrow>
                             if ln - copied > length (elems c2) + length (spare c2)
                             then Inl (Panic ''slice bounds out of range'')
                             else Inr (take copied buf1
                                         @ copy_into (drop copied buf1)
                                             (take (ln - copied) (elems c2 @ spare c2)),
                                       sp2))
                      else Inr (buf1, sp1)) of
                  Inl e \<Rightarrow> Inl e
                | Inr (buf2, sp3) \<Rightarrow>
                    if ln < 2 then Inl (Panic ''This is unexpected'')
                    else if ln > length buf2 + length (spare buffer)
                    then Inl (Panic ''slice bounds out of range'')
                    else Inr (take ln (buf2 @ spare buffer), sp3)))"

text \<open>
  Object 1 of the stream \<open>uuid1\<close>: a blob of four bytes at offset 0, a prefix that
  announces 20486 bytes at offset 6, a blob of three bytes at offset \<open>0xFFFFC\<close> whose
  last byte lies in the second chunk, and a blob of two bytes at offset \<open>0x1FFFFF\<close>
  whose prefix has one byte in the second chunk and one in the third. A provider on
  that cluster and a caller's buffer of 20485 bytes.
\<close>

definition blob_object :: "byte list" where
  "blob_object =
     [4, 0, 1, 2, 3, 4, 0x06, 0x50] @ replicate 1048564 0
     @ [3, 0, 9, 8, 7] @ replicate 1048574 0
     @ [2, 0, 5, 6]"

definition store_blob :: rados where
  "store_blob =
     \<lparr>objs = [data_oid uuid1 0x1000000 \<mapsto> \<lparr>odata = blob_object, oxattrs = [], oomap = []\<rparr>],
      faulty = (\<lambda>oid. False)\<rparr>"

definition sp_blob :: provider where
  "sp_blob = sp0\<lparr>conn := store_blob\<rparr>"

definition buffer0 :: slice where
  "buffer0 = \<lparr>elems = replicate 20485 0, spare = []\<rparr>"

text \<open>The three chunks of that object, as the cluster returns them.\<close>

definition chunkA :: "byte list" where
  "chunkA = [4, 0, 1, 2, 3, 4, 0x06, 0x50] @ replicate 1048564 0 @ [3, 0, 9, 8]"



definition as_chunk :: "byte list \<Rightarrow> slice" where
  "as_chunk bs = \<lparr>elems = bs, spare = drop (length bs) getBlank\<rparr>"





section \<open>The stream catalogue\<close>

text \<open>
  Extended attributes and the ordered key/value map of an object, as go-ceph offers
  them. \<open>GetXattr\<close> and \<open>ListXattrs\<close> answer \<open>RadosErrorNotFound\<close> for an object that
  does not exist; an attribute that an existing object lacks is another error.
  \<open>ListOmapValues(oid, startAfter, filterPrefix, maxReturn, f)\<close> visits, in the order of
  the keys, at most \<open>maxReturn\<close> entries after \<open>startAfter\<close> whose key begins with
  \<open>filterPrefix\<close>; the list is what it visits. Setting an attribute or a key creates the
  object.
\<close>

definition rados_GetXattr :: "rados \<Rightarrow> string \<Rightarrow> string \<Rightarrow> rados_error + byte list" where
  "rados_GetXattr st oid name =
     (if faulty st oid then Inl RadosErrorOther
      else case objs st oid of
             None \<Rightarrow> Inl RadosErrorNotFound
           | Some ob \<Rightarrow>
               (case map_of (oxattrs ob) name of
                  None \<Rightarrow> Inl RadosErrorOther
                | Some v \<Rightarrow> Inr v))"

definition rados_ListXattrs ::
  "rados \<Rightarrow> string \<Rightarrow> rados_error + (string \<times> byte list) list" where
  "rados_ListXattrs st oid =
     (if faulty st oid then Inl RadosErrorOther
      else case objs st oid of
             None \<Rightarrow> Inl RadosErrorNotFound
           | Some ob \<Rightarrow> Inr (oxattrs ob))"

definition rados_SetXattr ::
  "rados \<Rightarrow> string \<Rightarrow> string \<Rightarrow> byte list \<Rightarrow> rados_error option \<times> rados" where
  "rados_SetXattr st oid name v =
     (if faulty st oid then (Some RadosErrorOther, st)
      else let ob = obj_or_new st oid
           in (None, st\<lparr>objs := (objs st)(oid \<mapsto> ob\<lparr>oxattrs := AList.update name v (oxattrs ob)\<rparr>)\<rparr>))"

definition rados_ListOmapValues ::
  "rados \<Rightarrow> string \<Rightarrow> string \<Rightarrow> string \<Rightarrow> nat \<Rightarrow> rados_error + (string \<times> byte list) list" where
  "rados_ListOmapValues st oid startAfter filterPrefix maxReturn =
     (if faulty st oid then Inl RadosErrorOther
      else case objs st oid of
             None \<Rightarrow> Inl RadosErrorNotFound
           | Some ob \<Rightarrow>
               Inr (take maxReturn
                      (filter (\<lambda>(k, v). prefix filterPrefix k \<and> (startAfter = [] \<or> startAfter < k))
                         (sort_key fst (oomap ob)))))"

definition rados_SetOmap ::
  "rados \<Rightarrow> string \<Rightarrow> (string \<times> byte list) list \<Rightarrow> rados_error option \<times> rados" where
  "rados_SetOmap st oid pairs =
     (if faulty st oid then (Some RadosErrorOther, st)
      else let ob = obj_or_new st oid
           in (None, st\<lparr>objs := (objs st)(oid \<mapsto>
                            ob\<lparr>oomap := fold (\<lambda>(k, v). AList.update k v) pairs (oomap ob)\<rparr>)\<rparr>))"

text \<open>Strings and byte slices: \<open>[]byte(s)\<close> and \<open>string(b)\<close>.\<close>

definition bytes_of :: "string \<Rightarrow> byte list" where
  "bytes_of s = map (\<lambda>c. of_nat (of_char c)) s"

definition string_of :: "byte list \<Rightarrow> string" where
  "string_of b = map (\<lambda>x. char_of (unat x)) b"

text \<open>
  The error codes of package \<open>bte\<close> that the provider and the engine return; a
  \<open>bte.BTE\<close> is one of them or nil. The text that goes with a code is left out.
\<close>

datatype bte_code =
    InvalidCollection | WrongEndpoint | AnnotationTooBig | InvalidTagKey | InvalidTagValue
  | StreamExists | SameStream | AmbiguousStream | NoSuchStream | AnnotationVersionMismatch
  | InvalidLimit | AmbiguousTags

text \<open>
  What the provider takes from elsewhere: the cluster configuration's
  \<open>WeHoldWriteLockFor\<close>, the constants \<open>MaxAnnotationSize\<close> and \<open>SpecialVersionCreated\<close> of
  package \<open>bprovider\<close>, which is not among the sources, and the hash \<open>murmur.Murmur3\<close>.
\<close>

record environment =
  WeHoldWriteLockFor :: "byte list \<Rightarrow> bool"
  MaxAnnotationSize :: nat
  SpecialVersionCreated :: u64
  Murmur3 :: "byte list \<Rightarrow> 32 word"

text \<open>
  The patterns \<open>^[a-z][a-z0-9_.]{0,254}$\<close> (collections and tag keys) and
  \<open>^[a-zA-Z0-9 .-]*$\<close> (tag values).
\<close>

definition is_lower :: "char \<Rightarrow> bool" where
  "is_lower c \<longleftrightarrow> (97 :: nat) \<le> of_char c \<and> of_char c \<le> (122 :: nat)"

definition is_upper :: "char \<Rightarrow> bool" where
  "is_upper c \<longleftrightarrow> (65 :: nat) \<le> of_char c \<and> of_char c \<le> (90 :: nat)"

definition is_digit :: "char \<Rightarrow> bool" where
  "is_digit c \<longleftrightarrow> (48 :: nat) \<le> of_char c \<and> of_char c \<le> (57 :: nat)"

definition isValidCollection :: "string \<Rightarrow> bool" where
  "isValidCollection c =
     (case c of
        [] \<Rightarrow> False
      | x # xs \<Rightarrow>
          is_lower x \<and> length xs \<le> 254
          \<and> list_all (\<lambda>y. is_lower y \<or> is_digit y \<or> y = CHR ''_'' \<or> y = CHR ''.'') xs)"

definition isValidTagKey :: "string \<Rightarrow> bool" where
  "isValidTagKey k = isValidCollection k"

definition isValidTagValue :: "string \<Rightarrow> bool" where
  "isValidTagValue v =
     list_all (\<lambda>y. is_lower y \<or> is_upper y \<or> is_digit y
                    \<or> y = CHR '' '' \<or> y = CHR ''.'' \<or> y = CHR ''-'') v"

text \<open>
  The tags of a call are a Go map; the list is its entries in the order the loop over
  the map meets them. The first loop returns at the first key or value that is not
  valid; the canonical key \<open>tlkey\<close> joins the sorted strings \<open>k@v@\<close>.
\<close>

fun check_tags :: "(string \<times> string) list \<Rightarrow> bte_code option" where
  "check_tags [] = None"
| "check_tags ((k, v) # rest) =
     (if \<not> isValidTagKey k then Some InvalidTagKey
      else if \<not> isValidTagValue v then Some InvalidTagValue
      else check_tags rest)"

definition tlkey_of :: "(string \<times> string) list \<Rightarrow> string" where
  "tlkey_of tags = concat (sort (map (\<lambda>(k, v). k @ ''@'' @ v @ ''@'') tags))"

text \<open>The deferred \<open>sp.rhidx_ret <- hi\<close> of a function that returns \<open>r\<close>.\<close>

definition return_rh :: "provider \<Rightarrow> nat \<Rightarrow> 'a \<Rightarrow> failure + ('a \<times> provider)" where
  "return_rh sp h r =
     (case send_rhidx_ret sp h of Inl e \<Rightarrow> Inl e | Inr sp' \<Rightarrow> Inr (r, sp'))"

text \<open>
  \<open>CreateStream\<close>, in two parts: the checks, up to the scan of the collection's map,
  and the entries it writes when the checks pass (\<open>CreateStream_entries\<close>, the source
  from "Now create a stream entry in the collection" on). The error of
  \<open>ListOmapValues\<close> and that of the annotation's \<open>WriteFull\<close> are ignored.
\<close>

definition CreateStream_entries ::
  "environment \<Rightarrow> provider \<Rightarrow> nat \<Rightarrow> byte list \<Rightarrow> string \<Rightarrow> string \<Rightarrow> byte list
     \<Rightarrow> failure + (bte_code option \<times> provider)" where
  "CreateStream_entries cfg sp1 h uuid collection tlkey annotation =
     (let oid = ''meta'' @ hex32 uuid;
          aoid = ''ann'' @ hex32 uuid
      in case rados_SetOmap (conn sp1) (''col.'' @ collection) [(tlkey, uuid)] of
           (Some e, st) \<Rightarrow> Inl (Panic ''ceph error setting tag set: %v'')
         | (None, st2) \<Rightarrow>
             let st3 = snd (rados_WriteFull st2 aoid (PutUint64 1 @ annotation));
                 partition = drop_bit 24 (Murmur3 cfg (bytes_of collection))
             in (case rados_SetOmap st3 (''index.'' @ hex_fixed 2 (unat partition))
                        [(collection, [46])] of
                   (Some e, st) \<Rightarrow> Inl (Panic ''ceph error setting col index: %v'')
                 | (None, st4) \<Rightarrow>
                     (case rados_SetXattr st4 oid ''stream''
                             (bytes_of (collection @ '';'' @ tlkey)) of
                        (Some e, st) \<Rightarrow> Inl (Panic ''ceph error: %v'')
                      | (None, st5) \<Rightarrow>
                          (case rados_SetXattr st5 oid ''version''
                                  (PutUint64 (SpecialVersionCreated cfg)) of
                             (Some e, st) \<Rightarrow> Inl (Panic ''ceph error: %v'')
                           | (None, st6) \<Rightarrow> return_rh (sp1\<lparr>conn := st6\<rparr>) h None))))"

definition CreateStream ::
  "environment \<Rightarrow> provider \<Rightarrow> byte list \<Rightarrow> string \<Rightarrow> (string \<times> string) list \<Rightarrow> byte list
     \<Rightarrow> failure + (bte_code option \<times> provider)" where
  "CreateStream cfg sp uuid collection tags annotation =
     (if \<not> isValidCollection collection then Inr (Some InvalidCollection, sp)
      else if \<not> WeHoldWriteLockFor cfg uuid then Inr (Some WrongEndpoint, sp)
      else if length annotation > MaxAnnotationSize cfg then Inr (Some AnnotationTooBig, sp)
      else
        case check_tags tags of
          Some e \<Rightarrow> Inr (Some e, sp)
        | None \<Rightarrow>
            (case GetRH sp of
               Inl e \<Rightarrow> Inl e
             | Inr (h, sp1) \<Rightarrow>
                 (case rados_GetXattr (conn sp1) (''meta'' @ hex32 uuid) ''version'' of
                    Inr dat \<Rightarrow> return_rh sp1 h (Some StreamExists)
                  | Inl RadosErrorOther \<Rightarrow>
                      Inl (Panic ''ceph error getting version xattr: %v %v'')
                  | Inl RadosErrorNotFound \<Rightarrow>
                      let tlkey = tlkey_of tags;
                          hits = (case rados_ListOmapValues (conn sp1) (''col.'' @ collection)
                                         [] tlkey 10 of
                                    Inl e \<Rightarrow> []
                                  | Inr kvs \<Rightarrow> kvs);
                          found = (hits \<noteq> []);
                          same = list_ex (\<lambda>(k, v). v = uuid) hits
                      in if found then
                           (if same then return_rh sp1 h (Some SameStream)
                            else return_rh sp1 h (Some AmbiguousStream))
                         else CreateStream_entries cfg sp1 h uuid collection tlkey annotation)))"

text \<open>\<open>SetStreamAnnotation\<close>.\<close>

definition SetStreamAnnotation ::
  "provider \<Rightarrow> byte list \<Rightarrow> u64 \<Rightarrow> byte list \<Rightarrow> failure + (bte_code option \<times> provider)" where
  "SetStreamAnnotation sp uuid aver ann =
     (case GetRH sp of
        Inl e \<Rightarrow> Inl e
      | Inr (h, sp1) \<Rightarrow>
          let oid = ''ann'' @ hex32 uuid
          in (case rados_Read (conn sp1) oid 8 0 of
                Inl RadosErrorNotFound \<Rightarrow> return_rh sp1 h (Some NoSuchStream)
              | Inl RadosErrorOther \<Rightarrow>
                  Inl (Panic ''Unexpected error retrieving annotation object uuid=%v err=%v'')
              | Inr dat \<Rightarrow>
                  if length dat \<noteq> 8
                  then Inl (Panic ''Short read on annotation object uuid=%v bc=%d'')
                  else
                    let existingAver = le_uint64 dat
                    in if existingAver \<noteq> aver \<and> aver \<noteq> 0
                       then return_rh sp1 h (Some AnnotationVersionMismatch)
                       else
                         let nextAver = existingAver + 1;
                             payload = PutUint64 nextAver @ ann
                         in (case rados_WriteFull (conn sp1) oid payload of
                               (Some e, st) \<Rightarrow> Inl (Panic ''Could not write annotation %v'')
                             | (None, st') \<Rightarrow> return_rh (sp1\<lparr>conn := st'\<rparr>) h None)))"

text \<open>
  \<open>GetStreamInfo\<close>. \<open>SplitN2\<close> is \<open>strings.SplitN(s, ";", 2)\<close>, \<open>split_on\<close> is
  \<open>strings.Split\<close> with a separator of one character, \<open>tag_pairs\<close> the loop that fills
  the tag map two elements at a time.
\<close>

record cephStream =
  cs_uuid :: "byte list"
  cs_collection :: string
  cs_tags :: "string \<rightharpoonup> string"

fun split_on :: "char \<Rightarrow> string \<Rightarrow> string list" where
  "split_on c [] = [[]]"
| "split_on c (x # xs) =
     (if x = c then [] # split_on c xs
      else (case split_on c xs of
              [] \<Rightarrow> [[x]]
            | w # ws \<Rightarrow> (x # w) # ws))"

definition SplitN2 :: "char \<Rightarrow> string \<Rightarrow> string list" where
  "SplitN2 c s =
     (if c \<in> set s then [takeWhile (\<lambda>x. x \<noteq> c) s, tl (dropWhile (\<lambda>x. x \<noteq> c) s)]
      else [s])"

fun tag_pairs :: "string list \<Rightarrow> (string \<rightharpoonup> string) \<Rightarrow> failure + (string \<rightharpoonup> string)" where
  "tag_pairs [] m = Inr m"
| "tag_pairs [k] m = Inl (Panic ''index out of range'')"
| "tag_pairs (k # v # rest) m = tag_pairs rest (m(k \<mapsto> v))"

definition GetStreamInfo ::
  "provider \<Rightarrow> byte list \<Rightarrow> failure + ((cephStream option \<times> u64) \<times> provider)" where
  "GetStreamInfo sp uuid =
     (case GetRH sp of
        Inl e \<Rightarrow> Inl e
      | Inr (h, sp1) \<Rightarrow>
          (case rados_ListXattrs (conn sp1) (''meta'' @ hex32 uuid) of
             Inl RadosErrorNotFound \<Rightarrow> return_rh sp1 h (None, 0)
           | Inl RadosErrorOther \<Rightarrow> Inl (Panic ''weird ceph error getting xattrs: %v'')
           | Inr rv \<Rightarrow>
               let vdata = (case map_of rv ''version'' of None \<Rightarrow> [] | Some v \<Rightarrow> v);
                   tdata = (case map_of rv ''stream'' of None \<Rightarrow> [] | Some v \<Rightarrow> v)
               in (case Uint64 vdata of
                     Inl e \<Rightarrow> Inl e
                   | Inr ver \<Rightarrow>
                       (case SplitN2 (CHR '';'') (string_of tdata) of
                          [collection, t] \<Rightarrow>
                            let tags = (if t = [] then []
                                        else butlast (split_on (CHR ''@'') t))
                            in (case tag_pairs tags Map.empty of
                                  Inl e \<Rightarrow> Inl e
                                | Inr tmap \<Rightarrow>
                                    return_rh sp1 h
                                      (Some \<lparr>cs_uuid = uuid, cs_collection = collection,
                                             cs_tags = tmap\<rparr>, ver))
                        | _ \<Rightarrow> Inl (Panic ''index out of range'')))))"

text \<open>
  A configuration that owns every stream; a cluster where the annotation of \<open>uuid1\<close>
  has version 7, and the same after version 8 is written with the annotation "x"; a
  cluster that answers every request with an error; a cluster where \<open>uuid1\<close> has a
  version; a cluster where the collection \<open>phasor\<close> maps the tags \<open>chan=A, loc=x1\<close> to
  \<open>uuid1\<close> and \<open>uuid1\<close> has no version yet.
\<close>

definition cfg0 :: environment where
  "cfg0 = \<lparr>WeHoldWriteLockFor = (\<lambda>u. True), MaxAnnotationSize = 2048,
           SpecialVersionCreated = 9, Murmur3 = (\<lambda>b. 0)\<rparr>"

definition store_ann :: rados where
  "store_ann =
     \<lparr>objs = [''ann'' @ hex32 uuid1 \<mapsto>
                 \<lparr>odata = PutUint64 7 @ [1, 2], oxattrs = [], oomap = []\<rparr>],
      faulty = (\<lambda>oid. False)\<rparr>"

definition store_ann8 :: rados where
  "store_ann8 =
     \<lparr>objs = [''ann'' @ hex32 uuid1 \<mapsto>
                 \<lparr>odata = PutUint64 8 @ [120], oxattrs = [], oomap = []\<rparr>],
      faulty = (\<lambda>oid. False)\<rparr>"

definition store_weird :: rados where
  "store_weird = \<lparr>objs = Map.empty, faulty = (\<lambda>oid. True)\<rparr>"

definition store_exists :: rados where
  "store_exists =
     \<lparr>objs = [''meta'' @ hex32 uuid1 \<mapsto>
                 \<lparr>odata = [], oxattrs = [(''version'', PutUint64 9)], oomap = []\<rparr>],
      faulty = (\<lambda>oid. False)\<rparr>"

definition store_col :: rados where
  "store_col =
     \<lparr>objs = [''col.phasor'' \<mapsto>
                 \<lparr>odata = [], oxattrs = [], oomap = [(''chan@A@loc@x1@'', uuid1)]\<rparr>],
      faulty = (\<lambda>oid. False)\<rparr>"

definition tags0 :: "(string \<times> string) list" where
  "tags0 = [(''loc'', ''x1''), (''chan'', ''A'')]"

section \<open>The ingest coalescer\<close>

text \<open>
  What \<open>Quasar\<close> takes from elsewhere: its configuration (\<open>ClusterEnabled\<close>,
  \<open>WeHoldWriteLockFor\<close>, \<open>CoalesceMaxPoints\<close>), the block store's \<open>StreamExists\<close> (here \<open>bs_StreamExists\<close>), and the
  tree engine, which takes the records of a commit (\<open>qtree.NewWriteQTree\<close>,
  \<open>InsertValues\<close>, \<open>Commit\<close>) and may answer either of the first two with an error.
  The records are of any type \<open>'r\<close>.
\<close>

datatype engine_result = EngineOk | NewWriteQTreeError | InsertValuesError

record 'r quasar_cfg = environment +
  ClusterEnabled :: bool
  CoalesceMaxPoints :: int
  bs_StreamExists :: "byte list \<Rightarrow> bool"
  tree_engine :: "byte list \<Rightarrow> 'r list \<Rightarrow> engine_result"

text \<open>
  An open tree: \<open>store\<close> is nil or a slice, \<open>sigEC\<close> is nil or a channel. Channels live
  in \<open>chans\<close>, each with the values it buffers (the abort channels buffer one); a timer
  is the goroutine that \<open>InsertValues\<close> spawns: it waits in its \<open>select\<close>, or its timeout
  has fired and it waits for the mutex of its tree, or it has ended. \<open>handed\<close> is what
  the tree engine has been given, commit by commit. The maps are keyed by the uuid
  (\<open>bstore.UUIDToMapKey\<close>, not among the sources, makes an array of its 16 bytes); a tree
  and its mutex are made together, and every function below that touches a tree is
  the section of the source that holds the mutex of that tree.
\<close>

record 'r openTree =
  store :: "'r list option"
  ot_id :: "byte list"
  sigEC :: "nat option"

datatype phase = Waiting | Fired | Ended

record timer =
  t_tree :: "byte list"
  t_abrt :: nat
  t_phase :: phase

record 'r Quasar =
  openTrees :: "byte list \<rightharpoonup> 'r openTree"
  chans :: "bool list list"
  timers :: "timer list"
  handed :: "(byte list \<times> 'r list) list"

text \<open>\<open>ch <- true\<close> on a channel that buffers one value; sending on nil blocks for ever.\<close>

definition chan_send :: "bool list list \<Rightarrow> nat option \<Rightarrow> failure + bool list list" where
  "chan_send cs c =
     (case c of
        None \<Rightarrow> Inl Blocked
      | Some i \<Rightarrow>
          if i \<ge> length cs \<or> length (cs ! i) \<ge> 1 then Inl Blocked
          else Inr (cs[i := cs ! i @ [True]]))"

text \<open>The records in the store of a tree, none when it is nil: \<open>len(t.store)\<close> is their number.\<close>

definition pend :: "'r openTree \<Rightarrow> 'r list" where
  "pend t = (case store t of None \<Rightarrow> [] | Some s \<Rightarrow> s)"

text \<open>\<open>commit\<close>: the tree after it and what the engine has been given.\<close>

definition commit ::
  "'r quasar_cfg \<Rightarrow> 'r openTree \<Rightarrow> (byte list \<times> 'r list) list
     \<Rightarrow> failure + ('r openTree \<times> (byte list \<times> 'r list) list)" where
  "commit cfg t log =
     (if length (pend t) = 0 then Inr (t, log)
      else (case tree_engine cfg (ot_id t) (pend t) of
              NewWriteQTreeError \<Rightarrow> Inl (Panic ''oh dear: %v'')
            | InsertValuesError \<Rightarrow> Inl (Panic ''we should not allow this: %v'')
            | EngineOk \<Rightarrow> Inr (t\<lparr>store := None\<rparr>, log @ [(ot_id t, pend t)])))"

text \<open>\<open>getTree\<close> with \<open>newOpenTree\<close>: the open tree of a uuid, made if it is not there.\<close>

definition getTree ::
  "'r quasar_cfg \<Rightarrow> 'r Quasar \<Rightarrow> byte list \<Rightarrow> bte_code + ('r openTree \<times> 'r Quasar)" where
  "getTree cfg q ident =
     (case openTrees q ident of
        Some ot \<Rightarrow> Inr (ot, q)
      | None \<Rightarrow>
          if bs_StreamExists cfg ident then
            let ot = \<lparr>store = None, ot_id = ident, sigEC = None\<rparr>
            in Inr (ot, q\<lparr>openTrees := (openTrees q)(ident \<mapsto> ot)\<rparr>)
          else Inl NoSuchStream)"

text \<open>
  The first block of the critical section of \<open>InsertValues\<close>: with a nil \<open>store\<close>, the
  tree gets an empty one and a new abort channel, and the timer goroutine is spawned
  on that channel. Then the pair \<open>tr.sigEC <- true; tr.commit(q)\<close> of \<open>InsertValues\<close>
  and \<open>Flush\<close>. The source changes the tree through its pointer; here the tree is put
  back into the map.
\<close>

definition start_batch ::
  "byte list \<Rightarrow> 'r openTree \<Rightarrow> 'r Quasar \<Rightarrow> 'r openTree \<times> 'r Quasar" where
  "start_batch ident tr q1 =
     (case store tr of
        None \<Rightarrow>
          (tr\<lparr>store := Some [], sigEC := Some (length (chans q1))\<rparr>,
           q1\<lparr>chans := chans q1 @ [[]],
              timers := timers q1 @
                [\<lparr>t_tree = ident, t_abrt = length (chans q1), t_phase = Waiting\<rparr>]\<rparr>)
      | Some s \<Rightarrow> (tr, q1))"

definition signal_and_commit ::
  "'r quasar_cfg \<Rightarrow> 'r Quasar \<Rightarrow> byte list \<Rightarrow> 'r openTree \<Rightarrow> failure + 'r Quasar" where
  "signal_and_commit cfg q ident tr =
     (case chan_send (chans q) (sigEC tr) of
        Inl e \<Rightarrow> Inl e
      | Inr cs \<Rightarrow>
          (case commit cfg tr (handed q) of
             Inl e \<Rightarrow> Inl e
           | Inr (tr3, log) \<Rightarrow>
               Inr (q\<lparr>openTrees := (openTrees q)(ident \<mapsto> tr3),
                      chans := cs, handed := log\<rparr>)))"

definition InsertValues ::
  "'r quasar_cfg \<Rightarrow> 'r Quasar \<Rightarrow> byte list \<Rightarrow> 'r list
     \<Rightarrow> failure + (bte_code option \<times> 'r Quasar)" where
  "InsertValues cfg q ident r =
     (if \<not> ClusterEnabled cfg then Inl (Panic ''Clustering is not enabled'')
      else if \<not> WeHoldWriteLockFor cfg ident then Inr (Some WrongEndpoint, q)
      else
        case getTree cfg q ident of
          Inl err \<Rightarrow> Inr (Some err, q)
        | Inr (tr, q1) \<Rightarrow>
            let (tr1, q2) = start_batch ident tr q1;
                tr2 = tr1\<lparr>store := Some (pend tr1 @ r)\<rparr>
            in if int (length (pend tr2)) \<ge> CoalesceMaxPoints cfg then
                 (case signal_and_commit cfg q2 ident tr2 of
                    Inl e \<Rightarrow> Inl e
                  | Inr q3 \<Rightarrow> Inr (None, q3))
               else Inr (None, q2\<lparr>openTrees := (openTrees q2)(ident \<mapsto> tr2)\<rparr>))"

definition Flush ::
  "'r quasar_cfg \<Rightarrow> 'r Quasar \<Rightarrow> byte list \<Rightarrow> failure + (bte_code option \<times> 'r Quasar)" where
  "Flush cfg q ident =
     (if \<not> ClusterEnabled cfg then Inl (Panic ''Clustering is not enabled'')
      else if \<not> WeHoldWriteLockFor cfg ident then Inr (Some WrongEndpoint, q)
      else
        case getTree cfg q ident of
          Inl err \<Rightarrow> Inr (Some err, q)
        | Inr (tr, q1) \<Rightarrow>
            if length (pend tr) \<noteq> 0 then
              (case signal_and_commit cfg q1 ident tr of
                 Inl e \<Rightarrow> Inl e
               | Inr q3 \<Rightarrow> Inr (None, q3))
            else Inr (None, q1))"

text \<open>
  The goroutine of a timer, one step at a time: its \<open>select\<close> takes the timeout (time
  is not modelled: the timeout may fire at any moment), or it takes a value from its
  abort channel and ends; after the timeout it locks the mutex, commits and ends.
\<close>

definition timer_fires :: "'r Quasar \<Rightarrow> nat \<Rightarrow> 'r Quasar option" where
  "timer_fires q k =
     (if k < length (timers q) \<and> t_phase (timers q ! k) = Waiting
      then Some (q\<lparr>timers := (timers q)[k := (timers q ! k)\<lparr>t_phase := Fired\<rparr>]\<rparr>)
      else None)"

definition timer_aborts :: "'r Quasar \<Rightarrow> nat \<Rightarrow> 'r Quasar option" where
  "timer_aborts q k =
     (if k < length (timers q) \<and> t_phase (timers q ! k) = Waiting
         \<and> t_abrt (timers q ! k) < length (chans q)
         \<and> chans q ! t_abrt (timers q ! k) \<noteq> []
      then Some (q\<lparr>chans := (chans q)[t_abrt (timers q ! k) :=
                                          tl (chans q ! t_abrt (timers q ! k))],
                    timers := (timers q)[k := (timers q ! k)\<lparr>t_phase := Ended\<rparr>]\<rparr>)
      else None)"

definition timer_commits :: "'r quasar_cfg \<Rightarrow> 'r Quasar \<Rightarrow> nat \<Rightarrow> (failure + 'r Quasar) option" where
  "timer_commits cfg q k =
     (if k < length (timers q) \<and> t_phase (timers q ! k) = Fired then
        (case openTrees q (t_tree (timers q ! k)) of
           None \<Rightarrow> None
         | Some tr \<Rightarrow>
             Some (case commit cfg tr (handed q) of
                     Inl e \<Rightarrow> Inl e
                   | Inr (tr3, log) \<Rightarrow>
                       Inr (q\<lparr>openTrees := (openTrees q)(t_tree (timers q ! k) \<mapsto> tr3),
                              handed := log,
                              timers := (timers q)[k := (timers q ! k)\<lparr>t_phase := Ended\<rparr>]\<rparr>)))
      else None)"

text \<open>
  The step relation of the coalescer as a function: an event and the state it leads
  to, when the event can happen in the state and neither blocks nor panics.
  (\<open>DeleteRange\<close> begins with the critical section of \<open>Flush\<close>. \<open>InitiateShutdown\<close> commits
  the trees under the global lock, without the mutex of the tree, when the node stops:
  it is not a step of this relation.)
\<close>

datatype 'r event =
    EvInsertValues "byte list" "'r list"
  | EvFlush "byte list"
  | EvTimerFires nat
  | EvTimerAborts nat
  | EvTimerCommits nat

fun step :: "'r quasar_cfg \<Rightarrow> 'r Quasar \<Rightarrow> 'r event \<Rightarrow> 'r Quasar option" where
  "step cfg q (EvInsertValues ident r) =
     (case InsertValues cfg q ident r of Inl e \<Rightarrow> None | Inr (err, q') \<Rightarrow> Some q')"
| "step cfg q (EvFlush ident) =
     (case Flush cfg q ident of Inl e \<Rightarrow> None | Inr (err, q') \<Rightarrow> Some q')"
| "step cfg q (EvTimerFires k) = timer_fires q k"
| "step cfg q (EvTimerAborts k) = timer_aborts q k"
| "step cfg q (EvTimerCommits k) =
     (case timer_commits cfg q k of
        None \<Rightarrow> None
      | Some (Inl e) \<Rightarrow> None
      | Some (Inr q') \<Rightarrow> Some q')"

fun run :: "'r quasar_cfg \<Rightarrow> 'r Quasar \<Rightarrow> 'r event list \<Rightarrow> 'r Quasar option" where
  "run cfg q [] = Some q"
| "run cfg q (e # es) = (case step cfg q e of None \<Rightarrow> None | Some q' \<Rightarrow> run cfg q' es)"

text \<open>
  The records of a stream that wait in its open tree, those the engine has been given
  for it, in the order it got them, and those that the calls of \<open>InsertValues\<close> in a
  list of events bring (a call for a stream this node does not own, or that was never
  created, brings none).
\<close>

definition pending :: "'r Quasar \<Rightarrow> byte list \<Rightarrow> 'r list" where
  "pending q ident = (case openTrees q ident of None \<Rightarrow> [] | Some tr \<Rightarrow> pend tr)"

definition handed_to :: "(byte list \<times> 'r list) list \<Rightarrow> byte list \<Rightarrow> 'r list" where
  "handed_to log ident = concat (map snd (filter (\<lambda>(i, s). i = ident) log))"

fun inserted :: "'r quasar_cfg \<Rightarrow> 'r event list \<Rightarrow> byte list \<Rightarrow> 'r list" where
  "inserted cfg [] ident = []"
| "inserted cfg (EvInsertValues i r # es) ident =
     (if i = ident \<and> WeHoldWriteLockFor cfg i \<and> bs_StreamExists cfg i then r else [])
     @ inserted cfg es ident"
| "inserted cfg (e # es) ident = inserted cfg es ident"

definition quasar0 :: "'r Quasar" where
  "quasar0 = \<lparr>openTrees = Map.empty, chans = [], timers = [], handed = []\<rparr>"

text \<open>Every open tree is that of its key, and its stream exists.\<close>

definition trees_ok :: "'r quasar_cfg \<Rightarrow> 'r Quasar \<Rightarrow> bool" where
  "trees_ok cfg q \<longleftrightarrow>
     (\<forall>i tr. openTrees q i = Some tr \<longrightarrow> ot_id tr = i \<and> bs_StreamExists cfg i)"

text \<open>
  A node that owns every stream and commits at three records, and a race on one
  stream: two records come in and the timeout of their timer fires (the state
  \<open>q_fired\<close>); before the timer has the mutex a third record trips the threshold
  (\<open>q_race\<close>); then the timer commits (\<open>q_race_end\<close>).
\<close>

definition stream9 :: "byte list" where
  "stream9 = replicate 16 9"

definition cfg_three :: "nat quasar_cfg" where
  "cfg_three =
     \<lparr>WeHoldWriteLockFor = (\<lambda>u. True), MaxAnnotationSize = 2048,
      SpecialVersionCreated = 9, Murmur3 = (\<lambda>b. 0),
      ClusterEnabled = True, CoalesceMaxPoints = 3,
      bs_StreamExists = (\<lambda>u. True), tree_engine = (\<lambda>u s. EngineOk)\<rparr>"


definition evs_fired :: "nat event list" where
  "evs_fired = [EvInsertValues stream9 [1, 2], EvTimerFires 0]"

definition q_fired :: "nat Quasar" where
  "q_fired =
     \<lparr>openTrees = [stream9 \<mapsto> \<lparr>store = Some [1, 2], ot_id = stream9, sigEC = Some 0\<rparr>],
      chans = [[]],
      timers = [\<lparr>t_tree = stream9, t_abrt = 0, t_phase = Fired\<rparr>],
      handed = []\<rparr>"

definition evs_race :: "nat event list" where
  "evs_race = evs_fired @ [EvInsertValues stream9 [3]]"

definition q_race :: "nat Quasar" where
  "q_race =
     \<lparr>openTrees = [stream9 \<mapsto> \<lparr>store = None, ot_id = stream9, sigEC = Some 0\<rparr>],
      chans = [[True]],
      timers = [\<lparr>t_tree = stream9, t_abrt = 0, t_phase = Fired\<rparr>],
      handed = [(stream9, [1, 2, 3])]\<rparr>"

definition q_race_end :: "nat Quasar" where
  "q_race_end = q_race\<lparr>timers := [\<lparr>t_tree = stream9, t_abrt = 0, t_phase = Ended\<rparr>]\<rparr>"

section \<open>Writing to a segment\<close>

text \<open>
  An allocation that is aligned to an object and beyond an address lies on another
  object than the address.
\<close>

lemma aligned_beyond:
  fixes a address :: u64
  assumes "a AND OFFSET_MASK = 0" and "address < a"
  shows "drop_bit 24 address < drop_bit 24 a"
proof -
  have m: "OFFSET_MASK = mask 24" by (simp add: OFFSET_MASK_def mask_eq_exp_minus_1)
  from assms(1) have d: "(2::nat) ^ 24 dvd unat a"
    unfolding m by (rule and_mask_dvd_nat [THEN iffD2])
  have l: "unat address < unat a" using assms(2) by (simp add: word_less_nat_alt)
  from d obtain k where k: "unat a = 2 ^ 24 * k" by (auto simp: dvd_def)
  have "unat address div 2 ^ 24 < k" using l k
    by (simp add: less_mult_imp_div_less mult.commute)
  then have "unat address div 2 ^ 24 < unat a div 2 ^ 24" using k by simp
  moreover have "unat (drop_bit 24 address) = unat address div 2 ^ 24"
    and "unat (drop_bit 24 a) = unat a div 2 ^ 24"
    by (simp_all only: unat_drop_bit_eq) (simp_all add: drop_bit_eq_div)
  ultimately show ?thesis
    by (simp only: word_less_nat_alt)
qed


lemma flushWrite_naddr: "naddr (snd (flushWrite sp seg)) = naddr seg"
  by (simp add: flushWrite_def Let_def)








text \<open>
  Claim C3, where the code departs from it. The comment on \<open>Write\<close> promises
  \<open>ErrInvalidArgument\<close> and the spec a failure InvalidArgument for a write at an address
  other than the segment's next address. The code does not return an error there: it
  calls \<open>logger.Panic("Non-sequential write")\<close>, and no statement of \<open>Write\<close> returns
  an error other than nil. The panic comes before anything is changed: the provider and
  the segment, with its buffer and its next address, are what they were before the call.
\<close>

theorem Write_non_sequential:
  "address \<noteq> naddr seg \<Longrightarrow>
     Write grow sp seg uuid address dat = (Inl (Panic ''Non-sequential write''), sp, seg)"
  by (simp add: Write_def)

theorem Write_non_sequential_witness:
  "(0x1FFAFF0 :: u64) \<noteq> naddr seg_late
   \<and> Write grow_exact sp0 seg_late uuid1 0x1FFAFF0 [1, 2, 3, 4]
       = (Inl (Panic ''Non-sequential write''), sp0, seg_late)"
proof -
  have h: "(0x1FFAFF0 :: u64) \<noteq> naddr seg_late" by (simp add: seg_late_def)
  from h Write_non_sequential [OF h] show ?thesis by simp
qed

section \<open>The segment-address cache\<close>

lemma flushWrite_segaddrcache: "segaddrcache (fst (flushWrite sp seg)) = segaddrcache sp"
  by (simp add: flushWrite_def Let_def)

lemma flushWrite_whidx_ret: "whidx_ret (fst (flushWrite sp seg)) = whidx_ret sp"
  by (simp add: flushWrite_def Let_def)

lemma flushWrite_uid: "uid (snd (flushWrite sp seg)) = uid seg"
  by (simp add: flushWrite_def Let_def)

lemma pruneSegCache_cache:
  "segaddrcache (pruneSegCache sp) =
     (if fcard (fmdom (segaddrcache sp)) \<ge> SEGCACHE_SIZE then fmempty else segaddrcache sp)"
  by (simp add: pruneSegCache_def)

lemma Unlock_cache:
  assumes "Unlock sp seg = Inr (sp', seg')"
  shows "segaddrcache sp' =
           (if (naddr seg AND OFFSET_MASK) < WORTH_CACHING
            then fmupd (uid seg) (naddr seg)
                   (if fcard (fmdom (segaddrcache sp)) \<ge> SEGCACHE_SIZE then fmempty
                    else segaddrcache sp)
            else segaddrcache sp)"
  using assms flushWrite_segaddrcache [of sp seg] flushWrite_uid [of sp seg]
    flushWrite_naddr [of sp seg]
  by (auto simp: Unlock_def Let_def split_beta pruneSegCache_def split: if_splits)

lemma Unlock_returns:
  assumes "length (whidx_ret sp) \<le> NUM_WHANDLES"
  shows "\<exists>sp' seg'. Unlock sp seg = Inr (sp', seg')"
  using assms flushWrite_whidx_ret [of sp seg]
  by (simp add: Unlock_def Let_def split_beta)

lemma LockSegment_cache:
  assumes "LockSegment sp uuid = Inr (seg, sp')"
  shows "segaddrcache sp' = segaddrcache sp
       \<or> segaddrcache sp' = fmdrop (UUIDSliceToArr uuid) (segaddrcache sp)"
  using assms
  by (auto simp: LockSegment_def Let_def split: list.splits option.splits)

lemma fcard_fmupd_le: "fcard (fmdom (fmupd k v m)) \<le> Suc (fcard (fmdom m))"
  by (simp add: fcard_finsert_if)

lemma fcard_fmdrop_le: "fcard (fmdom (fmdrop k m)) \<le> fcard (fmdom m)"
  by (simp add: fcard_fminus1_le)

lemma apply_op_bounded:
  assumes "fcard (fmdom (segaddrcache sp)) \<le> SEGCACHE_SIZE"
  shows "fcard (fmdom (segaddrcache (apply_op sp op))) \<le> SEGCACHE_SIZE"
proof (cases op)
  case (OpLockSegment uuid)
  show ?thesis
  proof (cases "LockSegment sp uuid")
    case (Inl e)
    with OpLockSegment assms show ?thesis by simp
  next
    case (Inr r)
    obtain seg sp' where r: "r = (seg, sp')" by (cases r)
    from LockSegment_cache [OF Inr [unfolded r]] assms
      fcard_fmdrop_le [of "UUIDSliceToArr uuid" "segaddrcache sp"]
    have "fcard (fmdom (segaddrcache sp')) \<le> SEGCACHE_SIZE" by auto
    with OpLockSegment Inr r show ?thesis by simp
  qed
next
  case (OpUnlock seg)
  show ?thesis
  proof (cases "Unlock sp seg")
    case (Inl e)
    with OpUnlock assms show ?thesis by simp
  next
    case (Inr r)
    obtain sp' seg' where r: "r = (sp', seg')" by (cases r)
    have "fcard (fmdom (segaddrcache sp')) \<le> SEGCACHE_SIZE"
      using Unlock_cache [OF Inr [unfolded r]] assms
        fcard_fmupd_le [of "uid seg" "naddr seg" "segaddrcache sp"]
      by (auto simp: SEGCACHE_SIZE_def fcard_finsert_if fcard_fempty split: if_splits)
    with OpUnlock Inr r show ?thesis by simp
  qed
next
  case (OpElse sp')
  with assms show ?thesis by simp
qed

lemma run_ops_bounded:
  "fcard (fmdom (segaddrcache sp)) \<le> SEGCACHE_SIZE \<Longrightarrow>
   fcard (fmdom (segaddrcache (run_ops sp ops))) \<le> SEGCACHE_SIZE"
  unfolding run_ops_def
  by (induction ops arbitrary: sp) (simp_all add: apply_op_bounded)

lemma uuid_of_nat_inj:
  assumes n: "n < 65536" and m: "m < 65536" and e: "uuid_of_nat n = uuid_of_nat m"
  shows "n = m"
proof -
  from e have h: "(of_nat (n div 256) :: byte) = of_nat (m div 256)"
    and l: "(of_nat n :: byte) = of_nat m"
    by (simp_all add: uuid_of_nat_def)
  from h have "unat (of_nat (n div 256) :: byte) = unat (of_nat (m div 256) :: byte)" by simp
  then have h': "n div 256 = m div 256" using n m by (simp add: unat_of_nat)
  from l have "unat (of_nat n :: byte) = unat (of_nat m :: byte)" by simp
  then have l': "n mod 256 = m mod 256" by (simp add: unat_of_nat)
  from h' l' show "n = m" by (metis div_mult_mod_eq)
qed

lemma full_cache_card: "fcard (fmdom full_cache) = 1024"
proof -
  have d: "distinct (map uuid_of_nat [0..<1024])"
    by (auto simp: distinct_map inj_on_def intro!: uuid_of_nat_inj)
  have "fmdom full_cache = fset_of_list (map uuid_of_nat [0..<1024])"
    by (simp add: full_cache_def comp_def)
  then have "fcard (fmdom full_cache) = card (set (map uuid_of_nat [0..<1024]))"
    by (simp add: fcard.rep_eq fset_of_list.rep_eq)
  also have "\<dots> = length (map uuid_of_nat [0..<1024])"
    using d by (rule distinct_card)
  finally show ?thesis by simp
qed

text \<open>
  Claim C8. Start from a provider whose segment-address cache holds at most 1024
  entries (\<open>Initialize\<close> makes it empty) and let any sequence of \<open>LockSegment\<close>, \<open>Unlock\<close> and
  other activity run: the cache holds at most 1024 entries, before and after one more
  \<open>Unlock\<close>. \<open>pruneSegCache\<close> empties a cache of 1024 entries and leaves a smaller one as
  it is, and \<open>Unlock\<close> puts \<open>(uid, naddr)\<close> into the pruned cache when
  \<open>naddr & 0xFFFFFF < WORTH_CACHING = 0xFFFFFF - 20485\<close> and leaves the cache untouched
  otherwise.
\<close>

theorem segaddrcache_bounded:
  assumes init: "fcard (fmdom (segaddrcache sp_init)) \<le> SEGCACHE_SIZE"
      and run: "sp = run_ops sp_init ops"
      and ul: "Unlock sp seg = Inr (sp', seg')"
  shows "fcard (fmdom (segaddrcache sp)) \<le> 1024
       \<and> fcard (fmdom (segaddrcache sp')) \<le> 1024
       \<and> segaddrcache (pruneSegCache sp) =
           (if fcard (fmdom (segaddrcache sp)) \<ge> 1024 then fmempty else segaddrcache sp)
       \<and> segaddrcache sp' =
           (if (naddr seg AND 0xFFFFFF) < WORTH_CACHING
            then fmupd (uid seg) (naddr seg) (segaddrcache (pruneSegCache sp))
            else segaddrcache sp)
       \<and> WORTH_CACHING = 0xFFFFFF - 20485"
proof -
  have a: "fcard (fmdom (segaddrcache sp)) \<le> SEGCACHE_SIZE"
    using init run by (simp add: run_ops_bounded)
  have "sp' = apply_op sp (OpUnlock seg)" using ul by simp
  then have b: "fcard (fmdom (segaddrcache sp')) \<le> SEGCACHE_SIZE"
    using apply_op_bounded [OF a, of "OpUnlock seg"] by (simp only:)
  have c: "segaddrcache sp' =
           (if (naddr seg AND 0xFFFFFF) < WORTH_CACHING
            then fmupd (uid seg) (naddr seg) (segaddrcache (pruneSegCache sp))
            else segaddrcache sp)"
    using Unlock_cache [OF ul] by (simp add: pruneSegCache_cache OFFSET_MASK_def)
  show ?thesis using a b c
    by (simp add: pruneSegCache_cache SEGCACHE_SIZE_def WORTH_CACHING_def
        OFFSET_MASK_def MAX_EXPECTED_OBJECT_SIZE_def)
qed

text \<open>
  Three instances: after a \<open>LockSegment\<close> on the fresh provider, unlocking the early
  segment caches its address and unlocking the late one (offset \<open>0xFFAFFC\<close>) does not;
  on the provider with 1024 cached streams, unlocking the early segment leaves that
  segment's entry alone in the cache.
\<close>

theorem segaddrcache_bounded_witness:
  "fcard (fmdom (segaddrcache sp0)) \<le> SEGCACHE_SIZE
   \<and> (\<exists>sp' seg'. Unlock (run_ops sp0 [OpLockSegment uuid1]) seg_early = Inr (sp', seg')
         \<and> fcard (fmdom (segaddrcache sp')) \<le> 1024
         \<and> segaddrcache sp' = fmupd uuid1 0x1000006 fmempty)
   \<and> (\<exists>sp' seg'. Unlock (run_ops sp0 [OpLockSegment uuid1]) seg_late = Inr (sp', seg')
         \<and> segaddrcache sp' = fmempty)
   \<and> fcard (fmdom (segaddrcache sp_full)) = 1024
   \<and> (\<exists>sp' seg'. Unlock (run_ops sp_full []) seg_early = Inr (sp', seg')
         \<and> segaddrcache (pruneSegCache (run_ops sp_full [])) = fmempty
         \<and> segaddrcache sp' = fmupd uuid1 0x1000006 fmempty)"
proof -
  define sp1 where "sp1 = run_ops sp0 [OpLockSegment uuid1]"
  have i0: "fcard (fmdom (segaddrcache sp0)) \<le> SEGCACHE_SIZE"
    by (simp add: sp0_def fcard_fempty)
  have c1: "segaddrcache sp1 = fmempty"
    by (simp add: sp1_def run_ops_def sp0_def LockSegment_def Let_def)
  have w1: "length (whidx_ret sp1) \<le> NUM_WHANDLES"
    by (simp add: sp1_def run_ops_def sp0_def LockSegment_def Let_def)
  have early: "(naddr seg_early AND 0xFFFFFF) < WORTH_CACHING"
    by (simp add: seg_early_def WORTH_CACHING_def OFFSET_MASK_def MAX_EXPECTED_OBJECT_SIZE_def)
  have late: "\<not> (naddr seg_late AND 0xFFFFFF) < WORTH_CACHING"
    by (simp add: seg_late_def WORTH_CACHING_def OFFSET_MASK_def MAX_EXPECTED_OBJECT_SIZE_def)
  from Unlock_returns [OF w1] obtain spa sega where
    ua: "Unlock sp1 seg_early = Inr (spa, sega)" by blast
  from Unlock_returns [OF w1] obtain spb segb where
    ub: "Unlock sp1 seg_late = Inr (spb, segb)" by blast
  note Ta = segaddrcache_bounded [OF i0 sp1_def ua]
  from Ta have A1: "fcard (fmdom (segaddrcache spa)) \<le> 1024" by blast
  from Ta have "segaddrcache spa =
           (if (naddr seg_early AND 0xFFFFFF) < WORTH_CACHING
            then fmupd (uid seg_early) (naddr seg_early) (segaddrcache (pruneSegCache sp1))
            else segaddrcache sp1)" by blast
  then have A2: "segaddrcache spa = fmupd uuid1 0x1000006 fmempty"
    using early c1 by (simp add: pruneSegCache_cache fcard_fempty SEGCACHE_SIZE_def)
      (simp add: seg_early_def)
  note Tb = segaddrcache_bounded [OF i0 sp1_def ub]
  from Tb have "segaddrcache spb =
           (if (naddr seg_late AND 0xFFFFFF) < WORTH_CACHING
            then fmupd (uid seg_late) (naddr seg_late) (segaddrcache (pruneSegCache sp1))
            else segaddrcache sp1)" by blast
  then have B: "segaddrcache spb = fmempty"
    using late c1 by simp
  have i2: "fcard (fmdom (segaddrcache sp_full)) \<le> SEGCACHE_SIZE"
    by (simp add: sp_full_def full_cache_card SEGCACHE_SIZE_def)
  have r2: "sp_full = run_ops sp_full []" by (simp add: run_ops_def)
  have w2: "length (whidx_ret sp_full) \<le> NUM_WHANDLES"
    by (simp add: sp_full_def sp0_def)
  from Unlock_returns [OF w2] obtain spc segc where
    uc: "Unlock sp_full seg_early = Inr (spc, segc)" by blast
  have cf: "fcard (fmdom (segaddrcache sp_full)) = 1024"
    by (simp add: sp_full_def full_cache_card)
  note Tc = segaddrcache_bounded [OF i2 r2 uc]
  from Tc have "segaddrcache (pruneSegCache sp_full) =
           (if fcard (fmdom (segaddrcache sp_full)) \<ge> 1024 then fmempty
            else segaddrcache sp_full)" by blast
  then have C1: "segaddrcache (pruneSegCache sp_full) = fmempty"
    using cf by simp
  from Tc have "segaddrcache spc =
           (if (naddr seg_early AND 0xFFFFFF) < WORTH_CACHING
            then fmupd (uid seg_early) (naddr seg_early) (segaddrcache (pruneSegCache sp_full))
            else segaddrcache sp_full)" by blast
  then have C2: "segaddrcache spc = fmupd uuid1 0x1000006 fmempty"
    using early C1 by simp (simp add: seg_early_def)
  have P1: "\<exists>sp' seg'. Unlock sp1 seg_early = Inr (sp', seg')
         \<and> fcard (fmdom (segaddrcache sp')) \<le> 1024
         \<and> segaddrcache sp' = fmupd uuid1 0x1000006 fmempty"
    using ua A1 A2 by blast
  have P2: "\<exists>sp' seg'. Unlock sp1 seg_late = Inr (sp', seg') \<and> segaddrcache sp' = fmempty"
    using ub B by blast
  have P3: "\<exists>sp' seg'. Unlock sp_full seg_early = Inr (sp', seg')
         \<and> segaddrcache (pruneSegCache sp_full) = fmempty
         \<and> segaddrcache sp' = fmupd uuid1 0x1000006 fmempty"
    using uc C1 C2 by blast
  show ?thesis
    using i0 P1 P2 cf P3 unfolding sp1_def r2 [symmetric] by blast
qed

section \<open>The allocator after a failed reservation\<close>

lemma provideAllocs_loop_2:
  "provideAllocs_loop 2 b sp =
     (case provideAllocs_iter b sp of
        Inl e \<Rightarrow> Inl e
      | Inr (b', sp') \<Rightarrow> provideAllocs_iter b' sp')"
  by (simp add: numeral_2_eq_2 split: sum.splits)

text \<open>
  Claim C2, at the input where the code departs from it. The loop of \<open>provideAllocs\<close>
  offers the last allocation of its lock range, \<open>0x1000000000\<close>, and reserves the next
  range; the read of the allocator object fails, \<open>obtainBaseAddress\<close> returns 0 and the
  loop goes on from \<open>sp.ptr = 0\<close>: its next allocation is the address 0. (\<open>Initialize\<close>
  stops with "Could not read allocator!" when its own call returns 0; the loop has no
  such test.) Another stream locks a segment and takes \<open>0x1000000000\<close>. On the segment
  of \<open>uuid1\<close>, the first \<open>Write\<close> returns \<open>0xFFFFFAFF6\<close>, the second one, made at that
  address, crosses the boundary of the object and returns the address 0: the second
  address is below the first and below every allocation handed out before.
\<close>

theorem alloc_reissue_after_failed_reservation:
  "(case provideAllocs_loop 2 0x1000000 sp_end of
      Inl e \<Rightarrow> False
    | Inr (b, sp2) \<Rightarrow>
        alloc sp2 = [0x1000000000, 0] \<and>
        (case LockSegment sp2 uuid2 of
           Inl e \<Rightarrow> False
         | Inr (seg2, sp3) \<Rightarrow>
             naddr seg2 = 0x1000000000 \<and> alloc sp3 = [0] \<and>
             two_writes grow_exact sp3 seg_last uuid1 [1, 2, 3, 4] [1, 2, 3, 4]
               = Inr (0xFFFFFAFF6, 0)))"
proof -
  define s1 where
    "s1 = sp_end\<lparr>rhidx := [1], rhidx_ret := [0], alloc := [0x1000000000], ptr := 0\<rparr>"
  define s2 where "s2 = s1\<lparr>alloc := [0x1000000000, 0], ptr := 0x1000000\<rparr>"
  define s3 where "s3 = s2\<lparr>whidx := [1], alloc := [0]\<rparr>"
  have i1: "provideAllocs_iter 0x1000000 sp_end = Inr (0, s1)"
    by (simp add: s1_def provideAllocs_iter_def sp_end_def ALLOC_CHAN_CAP_def ADDR_OBJ_SIZE_def
        ADDR_LOCK_SIZE_def obtainBaseAddress_def Let_def rados_Read_def store_fault_def
        send_rhidx_ret_def NUM_RHANDLES_def)
  have i2: "provideAllocs_iter 0 s1 = Inr (0, s2)"
    by (simp add: s1_def s2_def provideAllocs_iter_def sp_end_def ALLOC_CHAN_CAP_def
        ADDR_OBJ_SIZE_def ADDR_LOCK_SIZE_def Let_def)
  have l: "provideAllocs_loop 2 0x1000000 sp_end = Inr (0, s2)"
    by (simp add: provideAllocs_loop_2 i1 i2)
  have a2: "alloc s2 = [0x1000000000, 0]" by (simp add: s2_def)
  obtain seg2 where k: "LockSegment s2 uuid2 = Inr (seg2, s3)"
    and n: "naddr seg2 = 0x1000000000"
    by (simp add: LockSegment_def s1_def s2_def s3_def sp_end_def Let_def)
  have a3: "alloc s3 = [0]" by (simp add: s3_def)
  have w1: "Write grow_exact s3 seg_last uuid1 0xFFFFFAFF0 [1, 2, 3, 4]
             = (Inr 0xFFFFFAFF6, s3,
                seg_last\<lparr>wcache := [4, 0, 1, 2, 3, 4], naddr := 0xFFFFFAFF6\<rparr>)"
    by (simp add: Write_def seg_last_def WCACHE_SIZE_def crosses_def
        MAX_EXPECTED_OBJECT_SIZE_def Let_def)
  have "fst (Write grow_exact s3
               (seg_last\<lparr>wcache := [4, 0, 1, 2, 3, 4], naddr := 0xFFFFFAFF6\<rparr>)
               uuid1 0xFFFFFAFF6 [1, 2, 3, 4]) = Inr 0"
    by (simp add: Write_def seg_last_def WCACHE_SIZE_def crosses_def
        MAX_EXPECTED_OBJECT_SIZE_def Let_def a3 split_beta)
  then obtain s4 seg4 where
    w2: "Write grow_exact s3
           (seg_last\<lparr>wcache := [4, 0, 1, 2, 3, 4], naddr := 0xFFFFFAFF6\<rparr>)
           uuid1 0xFFFFFAFF6 [1, 2, 3, 4] = (Inr 0, s4, seg4)"
    by (metis fst_conv prod.exhaust)
  have n0: "naddr seg_last = 0xFFFFFAFF0" by (simp add: seg_last_def)
  have t: "two_writes grow_exact s3 seg_last uuid1 [1, 2, 3, 4] [1, 2, 3, 4]
             = Inr (0xFFFFFAFF6, 0)"
    by (simp add: two_writes_def n0 w1 w2)
  show ?thesis by (simp add: l a2 k n a3 t)
qed

section \<open>A write that crosses after a failed reservation\<close>



section \<open>Reading a blob\<close>

lemma rawObtainChunk_not_WTUF: "rawObtainChunk sp uuid a \<noteq> Inl (Panic ''WTUF: '')"
  by (auto simp: rawObtainChunk_def GetRH_def send_rhidx_ret_def Let_def
      split: option.splits list.splits sum.splits)

lemma obtainChunk_not_WTUF: "obtainChunk sp uuid a \<noteq> Inl (Panic ''WTUF: '')"
  using rawObtainChunk_not_WTUF [of sp uuid a]
  by (auto simp: obtainChunk_def split: option.splits)

lemma Read_after_prefix:
  assumes "Read_prefix sp uuid address = Inr (ln, chunk1, chunk2, sp1)"
  shows "Read sp uuid address buffer =
          (if ln > MAX_EXPECTED_OBJECT_SIZE then Inl (Panic ''WTUF: '')
          else
            let end = (if length chunk1 < ln then length chunk1 else ln);
                copied = (if length chunk1 > 0 then min (length (elems buffer)) end else 0);
                buf1 = (if length chunk1 > 0 then copy_into (elems buffer) (take end chunk1)
                        else elems buffer)
            in (case (if copied < ln then
                        (case (case chunk2 of
                                 None \<Rightarrow> obtainChunk sp1 uuid
                                            ((address + of_nat R_CHUNKSIZE) AND R_ADDRMASK)
                               | Some c2 \<Rightarrow> Inr (c2, sp1)) of
                           Inl e \<Rightarrow> Inl e
                         | Inr (c2, sp2) \<Rightarrow>
                             if ln - copied > length (elems c2) + length (spare c2)
                             then Inl (Panic ''slice bounds out of range'')
                             else Inr (take copied buf1
                                         @ copy_into (drop copied buf1)
                                             (take (ln - copied) (elems c2 @ spare c2)),
                                       sp2))
                      else Inr (buf1, sp1)) of
                  Inl e \<Rightarrow> Inl e
                | Inr (buf2, sp3) \<Rightarrow>
                    if ln < 2 then Inl (Panic ''This is unexpected'')
                    else if ln > length buf2 + length (spare buffer)
                    then Inl (Panic ''slice bounds out of range'')
                    else Inr (take ln (buf2 @ spare buffer), sp3)))"
  using assms by (simp add: Read_def)

lemma Read_WTUF:
  assumes "Read_prefix sp uuid address = Inr (ln, chunk1, chunk2, sp1)"
      and "ln > MAX_EXPECTED_OBJECT_SIZE"
  shows "Read sp uuid address buffer = Inl (Panic ''WTUF: '')"
  using assms(2) by (simp add: Read_after_prefix [OF assms(1)])


lemma Read_not_WTUF:
  assumes p: "Read_prefix sp uuid address = Inr (ln, chunk1, chunk2, sp1)"
      and le: "ln \<le> MAX_EXPECTED_OBJECT_SIZE"
  shows "Read sp uuid address buffer \<noteq> Inl (Panic ''WTUF: '')"
proof -
  define oc where "oc = (case chunk2 of
              None \<Rightarrow> obtainChunk sp1 uuid ((address + of_nat R_CHUNKSIZE) AND R_ADDRMASK)
            | Some c2 \<Rightarrow> Inr (c2, sp1))"
  have o: "oc \<noteq> Inl (Panic ''WTUF: '')"
    unfolding oc_def using obtainChunk_not_WTUF by (cases chunk2) auto
  show ?thesis
  proof (cases oc)
    case (Inl e)
    with o have "e \<noteq> Panic ''WTUF: ''" by auto
    then show ?thesis
      unfolding Read_after_prefix [OF p] oc_def [symmetric] Inl using le
      by (simp add: Let_def)
  next
    case (Inr r)
    obtain c2 sp2 where r: "r = (c2, sp2)" by (cases r)
    show ?thesis
      unfolding Read_after_prefix [OF p] oc_def [symmetric] Inr r using le
      by (simp add: Let_def)
  qed
qed






text \<open>
  Claim C5. Once the length prefix is decoded to \<open>ln\<close>, \<open>Read\<close> fails at its length
  check exactly when \<open>ln\<close> exceeds \<open>MAX_EXPECTED_OBJECT_SIZE = 20485\<close>; the failure that
  the spec names Corrupt is the panic "WTUF" of the source. A length of 20485 or less
  passes the check: whatever \<open>Read\<close> does then, it is not that failure.
\<close>

theorem Read_length_check:
  assumes "Read_prefix sp uuid address = Inr (ln, chunk1, chunk2, sp1)"
  shows "(ln > 20485 \<longrightarrow> Read sp uuid address buffer = Inl (Panic ''WTUF: ''))
       \<and> (ln \<le> 20485 \<longrightarrow> Read sp uuid address buffer \<noteq> Inl (Panic ''WTUF: ''))"
  using Read_WTUF [OF assms] Read_not_WTUF [OF assms]
  by (simp add: MAX_EXPECTED_OBJECT_SIZE_def)


subsection \<open>Reading from a concrete object\<close>

lemma obtainChunk_store:
  assumes "rcache sp a = None" and "rhidx sp = h # hs"
      and "length (rhidx_ret sp) \<le> NUM_RHANDLES"
      and "rados_Read (conn sp) (data_oid uuid a) (length getBlank) (unat (a AND 0xFFFFFF))
             = Inr bs"
  shows "obtainChunk sp uuid a =
           Inr (as_chunk bs,
                sp\<lparr>rhidx := hs, rhidx_ret := rhidx_ret sp @ [h],
                   rcache := (rcache sp)(a \<mapsto> as_chunk bs)\<rparr>)"
  using assms
  by (simp add: obtainChunk_def rawObtainChunk_def cacheGet_def cachePut_def GetRH_def
      send_rhidx_ret_def Let_def as_chunk_def)


lemma read_chunkA:
  "rados_Read store_blob (data_oid uuid1 0x1000000) (length getBlank)
     (unat (0x1000000 AND 0xFFFFFF :: u64)) = Inr chunkA"
  by (simp add: rados_Read_def store_blob_def getBlank_def R_CHUNKSIZE_def blob_object_def
      chunkA_def)



lemma blob_masks:
  "(0x10FFFFC :: u64) AND R_ADDRMASK = 0x1000000"
  "(0x10FFFFC + of_nat R_CHUNKSIZE :: u64) AND R_ADDRMASK = 0x1100000"
  "unat ((0x10FFFFC :: u64) AND R_OFFSETMASK) = 1048572"
  "(0x11FFFFF :: u64) AND R_ADDRMASK = 0x1100000"
  "(0x11FFFFF + of_nat R_CHUNKSIZE :: u64) AND R_ADDRMASK = 0x1200000"
  "unat ((0x11FFFFF :: u64) AND R_OFFSETMASK) = 1048575"
  "(0x1000006 :: u64) AND R_ADDRMASK = 0x1000000"
  "unat ((0x1000006 :: u64) AND R_OFFSETMASK) = 6"
  "(0x1000000 :: u64) AND R_ADDRMASK = 0x1000000"
  "unat ((0x1000000 :: u64) AND R_OFFSETMASK) = 0"
  by (simp_all add: R_ADDRMASK_def R_OFFSETMASK_def R_CHUNKSIZE_def)

lemma obtain_A:
  "obtainChunk sp_blob uuid1 0x1000000 =
     Inr (as_chunk chunkA,
          sp_blob\<lparr>rhidx := [1], rhidx_ret := [0],
                  rcache := [0x1000000 \<mapsto> as_chunk chunkA]\<rparr>)"
proof -
  have "obtainChunk sp_blob uuid1 0x1000000 =
     Inr (as_chunk chunkA,
          sp_blob\<lparr>rhidx := [1], rhidx_ret := rhidx_ret sp_blob @ [0],
                  rcache := (rcache sp_blob)(0x1000000 \<mapsto> as_chunk chunkA)\<rparr>)"
  proof (rule obtainChunk_store)
    show "rcache sp_blob 0x1000000 = None" by (simp add: sp_blob_def sp0_def)
    show "rhidx sp_blob = 0 # [1]" by (simp add: sp_blob_def sp0_def)
    show "length (rhidx_ret sp_blob) \<le> NUM_RHANDLES" by (simp add: sp_blob_def sp0_def)
    have "conn sp_blob = store_blob" by (simp add: sp_blob_def)
    then show "rados_Read (conn sp_blob) (data_oid uuid1 0x1000000) (length getBlank)
                 (unat (0x1000000 AND 0xFFFFFF :: u64)) = Inr chunkA"
      by (simp only: read_chunkA)
  qed
  then show ?thesis by (simp add: sp_blob_def sp0_def)
qed



text \<open>
  The prefix at \<open>0x1000006\<close> announces 20486 bytes and \<open>Read\<close> fails with "WTUF"; the
  prefix at \<open>0x1000000\<close> announces 4 bytes and \<open>Read\<close> does not.
\<close>

theorem Read_length_check_witness:
  "(\<exists>c1 c2 s. Read_prefix sp_blob uuid1 0x1000006 = Inr (20486, c1, c2, s))
   \<and> Read sp_blob uuid1 0x1000006 buffer0 = Inl (Panic ''WTUF: '')
   \<and> (\<exists>c1 c2 s. Read_prefix sp_blob uuid1 0x1000000 = Inr (4, c1, c2, s))
   \<and> Read sp_blob uuid1 0x1000000 buffer0 \<noteq> Inl (Panic ''WTUF: '')"
proof -
  let ?sA = "sp_blob\<lparr>rhidx := [1], rhidx_ret := [0],
                     rcache := [0x1000000 \<mapsto> as_chunk chunkA]\<rparr>"
  have p1: "Read_prefix sp_blob uuid1 0x1000006 =
              Inr (20486, drop 2 (drop 6 (elems (as_chunk chunkA))), None, ?sA)"
    by (simp add: Read_prefix_def blob_masks obtain_A Let_def)
       (simp add: as_chunk_def chunkA_def)
  have p2: "Read_prefix sp_blob uuid1 0x1000000 =
              Inr (4, drop 2 (drop 0 (elems (as_chunk chunkA))), None, ?sA)"
    by (simp add: Read_prefix_def blob_masks obtain_A Let_def)
       (simp add: as_chunk_def chunkA_def)
  from Read_length_check [OF p1, of buffer0] Read_length_check [OF p2, of buffer0] p1 p2
  show ?thesis by simp
qed


subsection \<open>A blob of one byte, and a buffer shorter than the blob\<close>










section \<open>The stream catalogue\<close>

lemma le_uint64_take: "8 \<le> length bs \<Longrightarrow> le_uint64 (take 8 bs) = le_uint64 bs"
  by (simp add: le_uint64_def)

text \<open>
  Claim C7. With a read handle to be had and an annotation object that answers:
  when the object is missing, \<open>SetStreamAnnotation\<close> returns NoSuchStream; when the
  expected version is neither the current one (the first eight bytes of the object,
  little-endian) nor 0, it returns AnnotationVersionMismatch, and in both cases the
  cluster is left as it was; otherwise, so whenever the expected version is 0, it
  writes the whole object anew as the current version plus one (in 64 bits) followed by
  the bytes given, and returns nil.
\<close>

theorem SetStreamAnnotation_versions:
  assumes rh: "rhidx sp = h # hs"
      and rr: "length (rhidx_ret sp) \<le> NUM_RHANDLES"
      and ok: "\<not> faulty (conn sp) (''ann'' @ hex32 uuid)"
      and bk: "sp_back = sp\<lparr>rhidx := hs, rhidx_ret := rhidx_ret sp @ [h]\<rparr>"
  shows "(objs (conn sp) (''ann'' @ hex32 uuid) = None \<longrightarrow>
            SetStreamAnnotation sp uuid aver ann = Inr (Some NoSuchStream, sp_back))
       \<and> (objs (conn sp) (''ann'' @ hex32 uuid) = Some ob \<and> 8 \<le> length (odata ob)
            \<and> aver \<noteq> le_uint64 (odata ob) \<and> aver \<noteq> 0 \<longrightarrow>
            SetStreamAnnotation sp uuid aver ann = Inr (Some AnnotationVersionMismatch, sp_back))
       \<and> (objs (conn sp) (''ann'' @ hex32 uuid) = Some ob \<and> 8 \<le> length (odata ob)
            \<and> (aver = le_uint64 (odata ob) \<or> aver = 0) \<longrightarrow>
            SetStreamAnnotation sp uuid aver ann =
              Inr (None,
                   sp_back\<lparr>conn := (conn sp)\<lparr>objs := (objs (conn sp))
                      (''ann'' @ hex32 uuid \<mapsto>
                         ob\<lparr>odata := PutUint64 (le_uint64 (odata ob) + 1) @ ann\<rparr>)\<rparr>\<rparr>))"
  using assms
  by (auto simp: SetStreamAnnotation_def GetRH_def return_rh_def send_rhidx_ret_def
      rados_Read_def rados_WriteFull_def obj_or_new_def Let_def le_uint64_take)

text \<open>
  On the empty cluster the stream is not there; with version 7 stored, the expected
  version 5 is refused, and the expected version 0 and the expected version 7 both
  store version 8.
\<close>

theorem SetStreamAnnotation_versions_witness:
  "SetStreamAnnotation sp0 uuid1 5 [120]
     = Inr (Some NoSuchStream, sp0\<lparr>rhidx := [1], rhidx_ret := [0]\<rparr>)
   \<and> SetStreamAnnotation (sp0\<lparr>conn := store_ann\<rparr>) uuid1 5 [120]
     = Inr (Some AnnotationVersionMismatch,
            sp0\<lparr>conn := store_ann, rhidx := [1], rhidx_ret := [0]\<rparr>)
   \<and> SetStreamAnnotation (sp0\<lparr>conn := store_ann\<rparr>) uuid1 0 [120]
     = Inr (None, sp0\<lparr>conn := store_ann8, rhidx := [1], rhidx_ret := [0]\<rparr>)
   \<and> SetStreamAnnotation (sp0\<lparr>conn := store_ann\<rparr>) uuid1 7 [120]
     = Inr (None, sp0\<lparr>conn := store_ann8, rhidx := [1], rhidx_ret := [0]\<rparr>)"
proof -
  let ?oid = "''ann'' @ hex32 uuid1"
  let ?ob = "\<lparr>odata = PutUint64 7 @ [1, 2], oxattrs = [], oomap = []\<rparr>"
  let ?sa = "sp0\<lparr>conn := store_ann\<rparr>"
  have seven: "le_uint64 (PutUint64 7 @ [1, 2]) = 7" by code_simp
  have r0: "rhidx sp0 = 0 # [1]" and q0: "length (rhidx_ret sp0) \<le> NUM_RHANDLES"
    and f0: "\<not> faulty (conn sp0) ?oid" and n0: "objs (conn sp0) ?oid = None"
    by (simp_all add: sp0_def store0_def)
  have b0: "sp0\<lparr>rhidx := [1], rhidx_ret := [0]\<rparr>
              = sp0\<lparr>rhidx := [1], rhidx_ret := rhidx_ret sp0 @ [0]\<rparr>"
    by (simp add: sp0_def)
  have ra: "rhidx ?sa = 0 # [1]" and qa: "length (rhidx_ret ?sa) \<le> NUM_RHANDLES"
    and fa: "\<not> faulty (conn ?sa) ?oid" and oa: "objs (conn ?sa) ?oid = Some ?ob"
    and la: "8 \<le> length (odata ?ob)"
    by (simp_all add: sp0_def store_ann_def PutUint64_def)
  have ba: "sp0\<lparr>conn := store_ann, rhidx := [1], rhidx_ret := [0]\<rparr>
              = ?sa\<lparr>rhidx := [1], rhidx_ret := rhidx_ret ?sa @ [0]\<rparr>"
    by (simp add: sp0_def)
  have st8: "(conn ?sa)\<lparr>objs := (objs (conn ?sa))
               (?oid \<mapsto> ?ob\<lparr>odata := PutUint64 (le_uint64 (odata ?ob) + 1) @ [120]\<rparr>)\<rparr>
             = store_ann8"
    by (simp add: store_ann_def store_ann8_def seven)
  have A: "SetStreamAnnotation sp0 uuid1 5 [120]
             = Inr (Some NoSuchStream, sp0\<lparr>rhidx := [1], rhidx_ret := [0]\<rparr>)"
    using SetStreamAnnotation_versions [OF r0 q0 f0 b0, where aver = 5 and ann = "[120]" and ob = "?ob"] n0 by blast
  have B: "SetStreamAnnotation ?sa uuid1 5 [120]
             = Inr (Some AnnotationVersionMismatch,
                    sp0\<lparr>conn := store_ann, rhidx := [1], rhidx_ret := [0]\<rparr>)"
    using SetStreamAnnotation_versions [OF ra qa fa ba, where aver = 5 and ann = "[120]" and ob = "?ob"] oa la
    by (simp add: seven)
  have C: "SetStreamAnnotation ?sa uuid1 0 [120]
             = Inr (None, sp0\<lparr>conn := store_ann8, rhidx := [1], rhidx_ret := [0]\<rparr>)"
    using SetStreamAnnotation_versions [OF ra qa fa ba, where aver = 0 and ann = "[120]" and ob = "?ob"] oa la st8
    by (simp add: sp0_def)
  have D: "SetStreamAnnotation ?sa uuid1 7 [120]
             = Inr (None, sp0\<lparr>conn := store_ann8, rhidx := [1], rhidx_ret := [0]\<rparr>)"
    using SetStreamAnnotation_versions [OF ra qa fa ba, where aver = 7 and ann = "[120]" and ob = "?ob"] oa la st8
    by (simp add: sp0_def seven)
  from A B C D show ?thesis by blast
qed

text \<open>
  Claim C10, as the code has it. With a read handle to be had: for a uuid whose
  metadata object does not exist, \<open>GetStreamInfo\<close> returns no stream and version 0, and
  no error (it has no error result). Any other error of the attribute listing is not
  treated like that: the call panics with "weird ceph error getting xattrs".
\<close>

theorem GetStreamInfo_missing:
  assumes rh: "rhidx sp = h # hs"
      and rr: "length (rhidx_ret sp) \<le> NUM_RHANDLES"
      and bk: "sp_back = sp\<lparr>rhidx := hs, rhidx_ret := rhidx_ret sp @ [h]\<rparr>"
  shows "(\<not> faulty (conn sp) (''meta'' @ hex32 uuid)
            \<and> objs (conn sp) (''meta'' @ hex32 uuid) = None \<longrightarrow>
            GetStreamInfo sp uuid = Inr ((None, 0), sp_back))
       \<and> (faulty (conn sp) (''meta'' @ hex32 uuid) \<longrightarrow>
            GetStreamInfo sp uuid = Inl (Panic ''weird ceph error getting xattrs: %v''))"
  using assms
  by (auto simp: GetStreamInfo_def GetRH_def return_rh_def send_rhidx_ret_def
      rados_ListXattrs_def)

theorem GetStreamInfo_missing_witness:
  "GetStreamInfo sp0 uuid1 = Inr ((None, 0), sp0\<lparr>rhidx := [1], rhidx_ret := [0]\<rparr>)
   \<and> GetStreamInfo (sp0\<lparr>conn := store_weird\<rparr>) uuid1
       = Inl (Panic ''weird ceph error getting xattrs: %v'')"
proof -
  let ?oid = "''meta'' @ hex32 uuid1"
  let ?sw = "sp0\<lparr>conn := store_weird\<rparr>"
  have r0: "rhidx sp0 = 0 # [1]" and q0: "length (rhidx_ret sp0) \<le> NUM_RHANDLES"
    and n0: "\<not> faulty (conn sp0) ?oid \<and> objs (conn sp0) ?oid = None"
    by (simp_all add: sp0_def store0_def)
  have b0: "sp0\<lparr>rhidx := [1], rhidx_ret := [0]\<rparr>
              = sp0\<lparr>rhidx := [1], rhidx_ret := rhidx_ret sp0 @ [0]\<rparr>"
    by (simp add: sp0_def)
  have rw: "rhidx ?sw = 0 # [1]" and qw: "length (rhidx_ret ?sw) \<le> NUM_RHANDLES"
    and fw: "faulty (conn ?sw) ?oid"
    by (simp_all add: sp0_def store_weird_def)
  from GetStreamInfo_missing [OF r0 q0 b0, of uuid1] n0
  have A: "GetStreamInfo sp0 uuid1 = Inr ((None, 0), sp0\<lparr>rhidx := [1], rhidx_ret := [0]\<rparr>)"
    by blast
  from GetStreamInfo_missing [OF rw qw refl, of uuid1] fw
  have B: "GetStreamInfo ?sw uuid1 = Inl (Panic ''weird ceph error getting xattrs: %v'')"
    by blast
  from A B show ?thesis by blast
qed

text \<open>
  Claim C10 as it is written says that \<open>GetStreamInfo\<close> does not tell a stream that was
  never created from any other kind of error. It does: on a cluster that answers the
  listing with another error, the call panics and does not return no stream and
  version 0.
\<close>

theorem GetStreamInfo_other_error_panics:
  "GetStreamInfo (sp0\<lparr>conn := store_weird\<rparr>) uuid1
     = Inl (Panic ''weird ceph error getting xattrs: %v'')
   \<and> GetStreamInfo (sp0\<lparr>conn := store_weird\<rparr>) uuid1
     \<noteq> Inr ((None, 0), sp0\<lparr>conn := store_weird, rhidx := [1], rhidx_ret := [0]\<rparr>)
   \<and> GetStreamInfo sp0 uuid1 = Inr ((None, 0), sp0\<lparr>rhidx := [1], rhidx_ret := [0]\<rparr>)"
  by (simp add: GetStreamInfo_def GetRH_def return_rh_def send_rhidx_ret_def
      rados_ListXattrs_def sp0_def store0_def store_weird_def NUM_RHANDLES_def)

lemma CreateStream_entries_healthy:
  assumes "\<forall>oid. \<not> faulty (conn sp1) oid"
      and "length (rhidx_ret sp1) \<le> NUM_RHANDLES"
  shows "\<exists>sp'. CreateStream_entries cfg sp1 h uuid collection key annotation = Inr (None, sp')"
  using assms
  by (simp add: CreateStream_entries_def rados_SetOmap_def rados_WriteFull_def
      rados_SetXattr_def return_rh_def send_rhidx_ret_def Let_def)

lemma CreateStream_entries_not_error:
  "CreateStream_entries cfg sp1 h uuid collection key annotation \<noteq> Inr (Some e, sp')"
  by (auto simp: CreateStream_entries_def return_rh_def send_rhidx_ret_def Let_def
      split: prod.splits option.splits sum.splits if_splits)

text \<open>
  Claim C6. For a call that passes the checks made first (collection and tags valid,
  the node owns the uuid, the annotation is not too big) and gets a read handle, let
  \<open>hits\<close> be what the scan of \<open>col.<collection>\<close> with the prefix \<open>tlkey\<close> and the limit 10
  visits (nothing when the scan fails). When the version attribute of the uuid is
  there, \<open>CreateStream\<close> returns StreamExists. When the metadata object is not found:
  a hit whose value is the uuid makes it return SameStream; hits none of which is the
  uuid make it return AmbiguousStream; with no hit it goes on to write the entries of
  the stream. A call that returns nil found no version and had no hit.
\<close>

theorem CreateStream_checks:
  assumes vc: "isValidCollection collection"
      and wl: "WeHoldWriteLockFor cfg uuid"
      and an: "length annotation \<le> MaxAnnotationSize cfg"
      and tg: "check_tags tags = None"
      and rh: "rhidx sp = h # hs"
      and rr: "length (rhidx_ret sp) \<le> NUM_RHANDLES"
      and bk: "sp_back = sp\<lparr>rhidx := hs, rhidx_ret := rhidx_ret sp @ [h]\<rparr>"
      and ht: "hits = (case rados_ListOmapValues (conn sp) (''col.'' @ collection) []
                              (tlkey_of tags) 10 of
                         Inl e \<Rightarrow> [] | Inr kvs \<Rightarrow> kvs)"
      and vx: "version = rados_GetXattr (conn sp) (''meta'' @ hex32 uuid) ''version''"
  shows "((\<exists>dat. version = Inr dat) \<longrightarrow>
            CreateStream cfg sp uuid collection tags annotation
              = Inr (Some StreamExists, sp_back))
       \<and> (version = Inl RadosErrorNotFound \<and> list_ex (\<lambda>(k, v). v = uuid) hits \<longrightarrow>
            CreateStream cfg sp uuid collection tags annotation
              = Inr (Some SameStream, sp_back))
       \<and> (version = Inl RadosErrorNotFound \<and> hits \<noteq> []
            \<and> \<not> list_ex (\<lambda>(k, v). v = uuid) hits \<longrightarrow>
            CreateStream cfg sp uuid collection tags annotation
              = Inr (Some AmbiguousStream, sp_back))
       \<and> (version = Inl RadosErrorNotFound \<and> hits = [] \<longrightarrow>
            CreateStream cfg sp uuid collection tags annotation
              = CreateStream_entries cfg (sp\<lparr>rhidx := hs\<rparr>) h uuid collection
                  (tlkey_of tags) annotation)
       \<and> ((\<exists>sp'. CreateStream cfg sp uuid collection tags annotation = Inr (None, sp')) \<longrightarrow>
            version = Inl RadosErrorNotFound \<and> hits = [])"
proof -
  have pre: "CreateStream cfg sp uuid collection tags annotation =
     (case version of
        Inr dat \<Rightarrow> return_rh (sp\<lparr>rhidx := hs\<rparr>) h (Some StreamExists)
      | Inl RadosErrorOther \<Rightarrow> Inl (Panic ''ceph error getting version xattr: %v %v'')
      | Inl RadosErrorNotFound \<Rightarrow>
          if hits \<noteq> [] then
            (if list_ex (\<lambda>(k, v). v = uuid) hits
             then return_rh (sp\<lparr>rhidx := hs\<rparr>) h (Some SameStream)
             else return_rh (sp\<lparr>rhidx := hs\<rparr>) h (Some AmbiguousStream))
          else CreateStream_entries cfg (sp\<lparr>rhidx := hs\<rparr>) h uuid collection
                 (tlkey_of tags) annotation)"
    using vc wl an tg rh
    by (simp add: CreateStream_def GetRH_def Let_def ht vx
        split: sum.splits rados_error.splits)
  have ret: "\<And>r. return_rh (sp\<lparr>rhidx := hs\<rparr>) h r = Inr (r, sp_back)"
    using rr by (simp add: return_rh_def send_rhidx_ret_def bk)
  have ex: "list_ex (\<lambda>(k, v). v = uuid) hits \<Longrightarrow> hits \<noteq> []" by auto
  show ?thesis
    unfolding pre ret
    using CreateStream_entries_not_error [of cfg "sp\<lparr>rhidx := hs\<rparr>" h uuid collection
        "tlkey_of tags" annotation] ex
    by (cases version) (auto split: rados_error.splits)
qed

text \<open>
  Four calls for the collection \<open>phasor\<close> with the tags \<open>loc=x1, chan=A\<close>: for \<open>uuid1\<close>
  where it has a version; for \<open>uuid1\<close> and for \<open>uuid2\<close> where the collection maps the
  tags to \<open>uuid1\<close>; for \<open>uuid1\<close> on the empty cluster, which returns nil.
\<close>

theorem CreateStream_checks_witness:
  "CreateStream cfg0 (sp0\<lparr>conn := store_exists\<rparr>) uuid1 ''phasor'' tags0 []
     = Inr (Some StreamExists, sp0\<lparr>conn := store_exists, rhidx := [1], rhidx_ret := [0]\<rparr>)
   \<and> CreateStream cfg0 (sp0\<lparr>conn := store_col\<rparr>) uuid1 ''phasor'' tags0 []
     = Inr (Some SameStream, sp0\<lparr>conn := store_col, rhidx := [1], rhidx_ret := [0]\<rparr>)
   \<and> CreateStream cfg0 (sp0\<lparr>conn := store_col\<rparr>) uuid2 ''phasor'' tags0 []
     = Inr (Some AmbiguousStream, sp0\<lparr>conn := store_col, rhidx := [1], rhidx_ret := [0]\<rparr>)
   \<and> CreateStream cfg0 sp0 uuid1 ''phasor'' tags0 []
     = CreateStream_entries cfg0 (sp0\<lparr>rhidx := [1]\<rparr>) 0 uuid1 ''phasor'' ''chan@A@loc@x1@'' []
   \<and> (\<exists>sp'. CreateStream cfg0 sp0 uuid1 ''phasor'' tags0 [] = Inr (None, sp'))
   \<and> rados_GetXattr (conn sp0) (''meta'' @ hex32 uuid1) ''version'' = Inl RadosErrorNotFound
   \<and> rados_ListOmapValues (conn sp0) ''col.phasor'' [] ''chan@A@loc@x1@'' 10
       = Inl RadosErrorNotFound"
proof -
  let ?se = "sp0\<lparr>conn := store_exists\<rparr>"
  let ?sc = "sp0\<lparr>conn := store_col\<rparr>"
  let ?hc = "case rados_ListOmapValues (conn ?sc) (''col.'' @ ''phasor'') []
                    (tlkey_of tags0) 10 of
               Inl e \<Rightarrow> [] | Inr kvs \<Rightarrow> kvs"
  let ?h0 = "case rados_ListOmapValues (conn sp0) (''col.'' @ ''phasor'') []
                    (tlkey_of tags0) 10 of
               Inl e \<Rightarrow> [] | Inr kvs \<Rightarrow> kvs"
  have key: "tlkey_of tags0 = ''chan@A@loc@x1@''"
    unfolding tags0_def by code_simp
  have vc: "isValidCollection ''phasor''" and tg: "check_tags tags0 = None"
    by (simp_all add: tags0_def isValidCollection_def isValidTagKey_def isValidTagValue_def
        is_lower_def is_upper_def is_digit_def)
  have wl: "WeHoldWriteLockFor cfg0 u" for u by (simp add: cfg0_def)
  have an: "length ([] :: byte list) \<le> MaxAnnotationSize cfg0" by simp
  have u12: "uuid2 \<noteq> uuid1" by (simp add: uuid1_def uuid2_def numeral_eq_Suc)
  have rh: "rhidx (sp0\<lparr>conn := st\<rparr>) = 0 # [1]"
    and rr: "length (rhidx_ret (sp0\<lparr>conn := st\<rparr>)) \<le> NUM_RHANDLES"
    and bk: "sp0\<lparr>conn := st, rhidx := [1], rhidx_ret := [0]\<rparr>
              = sp0\<lparr>conn := st\<rparr>\<lparr>rhidx := [1],
                    rhidx_ret := rhidx_ret (sp0\<lparr>conn := st\<rparr>) @ [0]\<rparr>" for st
    by (simp_all add: sp0_def)
  \<comment> \<open>the stream exists\<close>
  have ve: "\<exists>dat. rados_GetXattr (conn ?se) (''meta'' @ hex32 uuid1) ''version'' = Inr dat"
    by (simp add: rados_GetXattr_def store_exists_def)
  note Te = CreateStream_checks [OF vc wl an tg rh [of store_exists] rr [of store_exists]
      bk [of store_exists] refl refl, where uuid = uuid1]
  note A = Te [THEN conjunct1, THEN mp, OF ve]
  \<comment> \<open>the tags are taken\<close>
  have vn: "rados_GetXattr (conn ?sc) (''meta'' @ hex32 u) ''version'' = Inl RadosErrorNotFound"
    for u by (simp add: rados_GetXattr_def store_col_def)
  have hc: "?hc = [(''chan@A@loc@x1@'', uuid1)]"
    by (simp add: key rados_ListOmapValues_def store_col_def)
  have same: "list_ex (\<lambda>(k, v). v = uuid1) ?hc" unfolding hc by simp
  have other: "?hc \<noteq> [] \<and> \<not> list_ex (\<lambda>(k, v). v = uuid2) ?hc"
    unfolding hc using u12 by simp
  note T1 = CreateStream_checks [OF vc wl an tg rh [of store_col] rr [of store_col]
      bk [of store_col] refl refl, where uuid = uuid1]
  note T2 = CreateStream_checks [OF vc wl an tg rh [of store_col] rr [of store_col]
      bk [of store_col] refl refl, where uuid = uuid2]
  have B: "CreateStream cfg0 ?sc uuid1 ''phasor'' tags0 []
     = Inr (Some SameStream, sp0\<lparr>conn := store_col, rhidx := [1], rhidx_ret := [0]\<rparr>)"
    by (rule T1 [THEN conjunct2, THEN conjunct1, THEN mp]) (rule conjI [OF vn same])
  have C: "CreateStream cfg0 ?sc uuid2 ''phasor'' tags0 []
     = Inr (Some AmbiguousStream, sp0\<lparr>conn := store_col, rhidx := [1], rhidx_ret := [0]\<rparr>)"
    by (rule T2 [THEN conjunct2, THEN conjunct2, THEN conjunct1, THEN mp])
       (rule conjI [OF vn other])
  \<comment> \<open>the empty cluster\<close>
  have v0: "rados_GetXattr (conn sp0) (''meta'' @ hex32 uuid1) ''version''
              = Inl RadosErrorNotFound"
    by (simp add: rados_GetXattr_def sp0_def store0_def)
  have l0: "rados_ListOmapValues (conn sp0) ''col.phasor'' [] ''chan@A@loc@x1@'' 10
              = Inl RadosErrorNotFound"
    by (simp add: rados_ListOmapValues_def sp0_def store0_def)
  have h0: "?h0 = []"
    using l0 by (simp add: key)
  have r0: "rhidx sp0 = 0 # [1]" and q0: "length (rhidx_ret sp0) \<le> NUM_RHANDLES"
    by (simp_all add: sp0_def)
  note T0 = CreateStream_checks [OF vc wl an tg r0 q0 refl refl refl, where uuid = uuid1]
  have "CreateStream cfg0 sp0 uuid1 ''phasor'' tags0 []
     = CreateStream_entries cfg0 (sp0\<lparr>rhidx := [1]\<rparr>) 0 uuid1 ''phasor'' (tlkey_of tags0) []"
    by (rule T0 [THEN conjunct2, THEN conjunct2, THEN conjunct2, THEN conjunct1, THEN mp])
       (rule conjI [OF v0 h0])
  then have D: "CreateStream cfg0 sp0 uuid1 ''phasor'' tags0 []
     = CreateStream_entries cfg0 (sp0\<lparr>rhidx := [1]\<rparr>) 0 uuid1 ''phasor'' ''chan@A@loc@x1@'' []"
    by (simp only: key)
  have "\<exists>sp'. CreateStream_entries cfg0 (sp0\<lparr>rhidx := [1]\<rparr>) 0 uuid1 ''phasor''
                 ''chan@A@loc@x1@'' [] = Inr (None, sp')"
    by (rule CreateStream_entries_healthy) (simp_all add: sp0_def store0_def)
  then have E: "\<exists>sp'. CreateStream cfg0 sp0 uuid1 ''phasor'' tags0 [] = Inr (None, sp')"
    by (simp only: D)
  have F: "rados_GetXattr (conn sp0) (''meta'' @ hex32 uuid1) ''version''
             = Inl RadosErrorNotFound \<and> ?h0 = []"
    by (rule T0 [THEN conjunct2, THEN conjunct2, THEN conjunct2, THEN conjunct2, THEN mp])
       (rule E)
  note F1 = F [THEN conjunct1]
  from A B C D E F1 l0 show ?thesis by (intro conjI)
qed

section \<open>The coalescer hands over every record once\<close>

lemma handed_to_append [simp]: "handed_to (a @ b) i = handed_to a i @ handed_to b i"
  by (simp add: handed_to_def)

lemma handed_to_single: "handed_to [(j, s)] i = (if j = i then s else [])"
  by (simp add: handed_to_def)

lemma commit_conserve:
  assumes "commit cfg t log = Inr (t', log')"
  shows "ot_id t' = ot_id t
       \<and> handed_to log' (ot_id t) @ pend t' = handed_to log (ot_id t) @ pend t
       \<and> (i \<noteq> ot_id t \<longrightarrow> handed_to log' i = handed_to log i)"
  using assms
  by (auto simp: commit_def pend_def handed_to_single split: option.splits if_splits engine_result.splits)

lemma pending_upd:
  "pending (q\<lparr>openTrees := (openTrees q)(j \<mapsto> t)\<rparr>) i = (if i = j then pend t else pending q i)"
  by (simp add: pending_def pend_def)

lemma getTree_props:
  assumes "getTree cfg q i = Inr (tr, q1)" and "trees_ok cfg q"
  shows "trees_ok cfg q1 \<and> openTrees q1 i = Some tr \<and> ot_id tr = i \<and> bs_StreamExists cfg i
       \<and> handed q1 = handed q \<and> (\<forall>j. pending q1 j = pending q j)
       \<and> (\<forall>j. j \<noteq> i \<longrightarrow> openTrees q1 j = openTrees q j)"
  using assms
  by (auto simp: getTree_def trees_ok_def pending_def pend_def Let_def split: option.splits if_splits)

lemma getTree_Inl:
  assumes "getTree cfg q i = Inl e" and "trees_ok cfg q"
  shows "\<not> bs_StreamExists cfg i"
  using assms
  by (auto simp: getTree_def trees_ok_def Let_def split: option.splits if_splits)


lemma trees_ok_upd:
  assumes "trees_ok cfg q" and "ot_id t = i" and "bs_StreamExists cfg i"
      and "openTrees q' = (openTrees q)(i \<mapsto> t)"
  shows "trees_ok cfg q'"
  using assms by (auto simp: trees_ok_def)

lemma pending_eq:
  "openTrees q' = (openTrees q)(j \<mapsto> t) \<Longrightarrow>
   pending q' i = (if i = j then pend t else pending q i)"
  by (simp add: pending_def pend_def)

lemma start_batch_props:
  assumes "start_batch i tr q1 = (tr1, q2)"
  shows "pend tr1 = pend tr \<and> ot_id tr1 = ot_id tr
       \<and> openTrees q2 = openTrees q1 \<and> handed q2 = handed q1"
  using assms by (auto simp: start_batch_def pend_def split: option.splits)

lemma signal_and_commit_conserve:
  assumes sc: "signal_and_commit cfg q i tr = Inr q3" and idt: "ot_id tr = i"
  shows "\<exists>tr3. openTrees q3 = (openTrees q)(i \<mapsto> tr3) \<and> ot_id tr3 = i
           \<and> handed_to (handed q3) j @ (if j = i then pend tr3 else [])
               = handed_to (handed q) j @ (if j = i then pend tr else [])"
proof -
  from sc obtain cs tr3 log where
    c: "commit cfg tr (handed q) = Inr (tr3, log)"
    and q3: "q3 = q\<lparr>openTrees := (openTrees q)(i \<mapsto> tr3), chans := cs, handed := log\<rparr>"
    by (auto simp: signal_and_commit_def split: sum.splits prod.splits)
  note cc = commit_conserve [OF c, of j, unfolded idt]
  have "openTrees q3 = (openTrees q)(i \<mapsto> tr3)" by (simp add: q3)
  moreover have "ot_id tr3 = i" using cc by simp
  moreover have "handed_to (handed q3) j @ (if j = i then pend tr3 else [])
               = handed_to (handed q) j @ (if j = i then pend tr else [])"
    using cc by (auto simp: q3)
  ultimately show ?thesis by blast
qed

lemma InsertValues_conserve:
  assumes iv: "InsertValues cfg q i r = Inr (err, q')" and ok: "trees_ok cfg q"
  shows "trees_ok cfg q'
       \<and> handed_to (handed q') j @ pending q' j
           = handed_to (handed q) j @ pending q j @ inserted cfg [EvInsertValues i r] j"
proof (cases "ClusterEnabled cfg \<and> WeHoldWriteLockFor cfg i")
  case False
  with iv ok show ?thesis
    by (auto simp: InsertValues_def split: if_splits)
next
  case True
  show ?thesis
  proof (cases "getTree cfg q i")
    case (Inl e)
    from getTree_Inl [OF Inl ok] have "\<not> bs_StreamExists cfg i" .
    with iv ok True Inl show ?thesis
      by (auto simp: InsertValues_def)
  next
    case (Inr p)
    obtain tr q1 where p: "p = (tr, q1)" by (cases p)
    note g = getTree_props [OF Inr [unfolded p] ok]
    obtain tr1 q2 where sb: "start_batch i tr q1 = (tr1, q2)" by (cases "start_batch i tr q1")
    note sp = start_batch_props [OF sb]
    define tr2 where "tr2 = tr1\<lparr>store := Some (pend tr1 @ r)\<rparr>"
    have id2: "ot_id tr2 = i" using g sp by (simp add: tr2_def)
    have pt2: "pend tr2 = pend tr @ r" using sp by (simp add: tr2_def pend_def)
    have ins: "inserted cfg [EvInsertValues i r] j = (if j = i then r else [])"
      using True g by auto
    have "pending q1 i = pend tr" using g by (simp add: pending_def)
    moreover have "pending q1 i = pending q i" using g by blast
    ultimately have pq: "pending q i = pend tr" by simp
    have q2o: "openTrees q2 = openTrees q1" and q2h: "handed q2 = handed q" using sp g by simp_all
    have body: "Inr (err, q') =
       (if int (length (pend tr2)) \<ge> CoalesceMaxPoints cfg then
          (case signal_and_commit cfg q2 i tr2 of
             Inl e \<Rightarrow> Inl e
           | Inr q3 \<Rightarrow> Inr (None, q3))
        else Inr (None, q2\<lparr>openTrees := (openTrees q2)(i \<mapsto> tr2)\<rparr>))"
      using iv True Inr p sb by (auto simp add: InsertValues_def tr2_def Let_def)
    show ?thesis
    proof (cases "int (length (pend tr2)) \<ge> CoalesceMaxPoints cfg")
      case False
      with body have q': "q' = q2\<lparr>openTrees := (openTrees q2)(i \<mapsto> tr2)\<rparr>" by simp
      have o: "openTrees q' = (openTrees q1)(i \<mapsto> tr2)" by (simp add: q' q2o)
      have h: "handed q' = handed q" by (simp add: q' q2h)
      have "trees_ok cfg q'" using trees_ok_upd [OF _ id2 _ o] g by simp
      moreover have "handed_to (handed q') j @ pending q' j
           = handed_to (handed q) j @ pending q j @ inserted cfg [EvInsertValues i r] j"
        unfolding ins using g by (simp add: h pending_eq [OF o] pt2 pq)
      ultimately show ?thesis by simp
    next
      case thr: True
      with body have sc: "signal_and_commit cfg q2 i tr2 = Inr q'"
        by (auto split: sum.splits)
      from signal_and_commit_conserve [OF sc id2, of j] obtain tr3 where
        o2: "openTrees q' = (openTrees q2)(i \<mapsto> tr3)" and id3: "ot_id tr3 = i"
        and cv: "handed_to (handed q') j @ (if j = i then pend tr3 else [])
               = handed_to (handed q2) j @ (if j = i then pend tr2 else [])"
        by blast
      have o: "openTrees q' = (openTrees q1)(i \<mapsto> tr3)" by (simp add: o2 q2o)
      have "trees_ok cfg q'" using trees_ok_upd [OF _ id3 _ o] g by simp
      moreover have "handed_to (handed q') j @ pending q' j
           = handed_to (handed q) j @ pending q j @ inserted cfg [EvInsertValues i r] j"
        unfolding ins using cv g by (auto simp: q2h pending_eq [OF o] pt2 pq)
      ultimately show ?thesis by simp
    qed
  qed
qed

lemma Flush_conserve:
  assumes fl: "Flush cfg q i = Inr (err, q')" and ok: "trees_ok cfg q"
  shows "trees_ok cfg q'
       \<and> handed_to (handed q') j @ pending q' j = handed_to (handed q) j @ pending q j"
proof (cases "ClusterEnabled cfg \<and> WeHoldWriteLockFor cfg i")
  case False
  with fl ok show ?thesis
    by (auto simp: Flush_def split: if_splits)
next
  case True
  show ?thesis
  proof (cases "getTree cfg q i")
    case (Inl e)
    with fl ok True show ?thesis
      by (auto simp: Flush_def)
  next
    case (Inr p)
    obtain tr q1 where p: "p = (tr, q1)" by (cases p)
    note g = getTree_props [OF Inr [unfolded p] ok]
    have idt: "ot_id tr = i" using g by simp
    have "pending q1 i = pend tr" using g by (simp add: pending_def)
    moreover have "pending q1 i = pending q i" using g by blast
    ultimately have pq: "pending q i = pend tr" by simp
    have body: "Inr (err, q') =
       (if length (pend tr) \<noteq> 0 then
          (case signal_and_commit cfg q1 i tr of
             Inl e \<Rightarrow> Inl e
           | Inr q3 \<Rightarrow> Inr (None, q3))
        else Inr (None, q1))"
      using fl True Inr p by (auto simp add: Flush_def)
    show ?thesis
    proof (cases "length (pend tr) \<noteq> 0")
      case False
      with body have "q' = q1" by simp
      with g show ?thesis by simp
    next
      case ne: True
      with body have sc: "signal_and_commit cfg q1 i tr = Inr q'"
        by (auto split: sum.splits)
      from signal_and_commit_conserve [OF sc idt, of j] obtain tr3 where
        o: "openTrees q' = (openTrees q1)(i \<mapsto> tr3)" and id3: "ot_id tr3 = i"
        and cv: "handed_to (handed q') j @ (if j = i then pend tr3 else [])
               = handed_to (handed q1) j @ (if j = i then pend tr else [])"
        by blast
      have "trees_ok cfg q'" using trees_ok_upd [OF _ id3 _ o] g by simp
      moreover have "handed_to (handed q') j @ pending q' j
           = handed_to (handed q) j @ pending q j"
        using cv g by (auto simp: pending_eq [OF o] pq)
      ultimately show ?thesis by simp
    qed
  qed
qed

lemma timer_fires_conserve:
  assumes "timer_fires q k = Some q'"
  shows "openTrees q' = openTrees q \<and> handed q' = handed q"
  using assms by (auto simp: timer_fires_def split: if_splits)

lemma timer_aborts_conserve:
  assumes "timer_aborts q k = Some q'"
  shows "openTrees q' = openTrees q \<and> handed q' = handed q"
  using assms by (auto simp: timer_aborts_def split: if_splits)

lemma pending_cong: "openTrees q' = openTrees q \<Longrightarrow> pending q' j = pending q j"
  by (simp add: pending_def)

lemma trees_ok_cong: "openTrees q' = openTrees q \<Longrightarrow> trees_ok cfg q' = trees_ok cfg q"
  by (simp add: trees_ok_def)

lemma timer_commits_conserve:
  assumes tc: "timer_commits cfg q k = Some (Inr q')" and ok: "trees_ok cfg q"
  shows "trees_ok cfg q'
       \<and> handed_to (handed q') j @ pending q' j = handed_to (handed q) j @ pending q j"
proof -
  define i where "i = t_tree (timers q ! k)"
  from tc obtain tr tr3 log where
    t: "openTrees q i = Some tr"
    and c: "commit cfg tr (handed q) = Inr (tr3, log)"
    and o: "openTrees q' = (openTrees q)(i \<mapsto> tr3)"
    and h: "handed q' = log"
    by (auto simp: timer_commits_def i_def split: if_splits option.splits sum.splits prod.splits)
  from ok t have idt: "ot_id tr = i" and ex: "bs_StreamExists cfg i"
    by (auto simp: trees_ok_def)
  note cc = commit_conserve [OF c, of j, unfolded idt]
  have id3: "ot_id tr3 = i" using cc by simp
  have pq: "pending q i = pend tr" using t by (simp add: pending_def)
  have "trees_ok cfg q'" using trees_ok_upd [OF ok id3 ex o] .
  moreover have "handed_to (handed q') j @ pending q' j = handed_to (handed q) j @ pending q j"
    using cc by (auto simp: h pending_eq [OF o] pq)
  ultimately show ?thesis by simp
qed

lemma step_conserve:
  assumes st: "step cfg q e = Some q'" and ok: "trees_ok cfg q"
  shows "trees_ok cfg q'
       \<and> handed_to (handed q') j @ pending q' j
           = handed_to (handed q) j @ pending q j @ inserted cfg [e] j"
proof (cases e)
  case (EvInsertValues i r)
  with st obtain err where "InsertValues cfg q i r = Inr (err, q')"
    by (auto split: sum.splits prod.splits)
  from InsertValues_conserve [OF this ok, of j] show ?thesis by (simp only: EvInsertValues)
next
  case (EvFlush i)
  with st obtain err where "Flush cfg q i = Inr (err, q')"
    by (auto split: sum.splits prod.splits)
  from Flush_conserve [OF this ok, of j] show ?thesis by (simp add: EvFlush)
next
  case (EvTimerFires k)
  with st have "timer_fires q k = Some q'" by simp
  from timer_fires_conserve [OF this]
  have o: "openTrees q' = openTrees q" and h: "handed q' = handed q" by simp_all
  from ok show ?thesis
    by (simp add: EvTimerFires pending_cong [OF o] trees_ok_cong [OF o] h)
next
  case (EvTimerAborts k)
  with st have "timer_aborts q k = Some q'" by simp
  from timer_aborts_conserve [OF this]
  have o: "openTrees q' = openTrees q" and h: "handed q' = handed q" by simp_all
  from ok show ?thesis
    by (simp add: EvTimerAborts pending_cong [OF o] trees_ok_cong [OF o] h)
next
  case (EvTimerCommits k)
  with st have "timer_commits cfg q k = Some (Inr q')"
    by (auto split: option.splits sum.splits)
  from timer_commits_conserve [OF this ok, of j] show ?thesis by (simp add: EvTimerCommits)
qed

lemma inserted_append:
  "inserted cfg (es @ fs) j = inserted cfg es j @ inserted cfg fs j"
  by (induction cfg es j rule: inserted.induct) simp_all

lemma inserted_Cons: "inserted cfg (e # es) j = inserted cfg [e] j @ inserted cfg es j"
  using inserted_append [of cfg "[e]" es j] by simp

lemma run_conserve:
  assumes "run cfg q es = Some q'" and "trees_ok cfg q"
  shows "trees_ok cfg q'
       \<and> handed_to (handed q') j @ pending q' j
           = handed_to (handed q) j @ pending q j @ inserted cfg es j"
  using assms
proof (induction es arbitrary: q)
  case Nil
  then show ?case by simp
next
  case (Cons e es)
  from Cons.prems obtain q1 where s: "step cfg q e = Some q1" and r: "run cfg q1 es = Some q'"
    by (auto split: option.splits)
  note sc = step_conserve [OF s Cons.prems(2), of j]
  from Cons.IH [OF r] sc show ?case
    by (simp add: inserted_Cons [of cfg e es j])
qed

lemma commit_hands:
  assumes "commit cfg t log = Inr (t', log')"
  shows "log' = log @ (if pend t = [] then [] else [(ot_id t, pend t)]) \<and> pend t' = []"
  using assms
  by (auto simp: commit_def pend_def split: if_splits engine_result.splits)

lemma timer_commits_hands:
  assumes tc: "timer_commits cfg q k = Some (Inr q')" and ok: "trees_ok cfg q"
  shows "handed q' = handed q @
           (if pending q (t_tree (timers q ! k)) = [] then []
            else [(t_tree (timers q ! k), pending q (t_tree (timers q ! k)))])
       \<and> pending q' (t_tree (timers q ! k)) = []"
proof -
  define i where "i = t_tree (timers q ! k)"
  from tc obtain tr tr3 log where
    t: "openTrees q i = Some tr"
    and c: "commit cfg tr (handed q) = Inr (tr3, log)"
    and o: "openTrees q' = (openTrees q)(i \<mapsto> tr3)"
    and h: "handed q' = log"
    by (auto simp: timer_commits_def i_def split: if_splits option.splits sum.splits prod.splits)
  from ok t have idt: "ot_id tr = i" by (auto simp: trees_ok_def)
  have pq: "pending q i = pend tr" using t by (simp add: pending_def)
  from commit_hands [OF c] show ?thesis
    unfolding i_def [symmetric] by (simp add: h pq idt pending_eq [OF o])
qed

lemma signal_and_commit_hands:
  assumes sc: "signal_and_commit cfg q i tr = Inr q3" and idt: "ot_id tr = i"
  shows "handed q3 = handed q @ (if pend tr = [] then [] else [(i, pend tr)])
       \<and> pending q3 i = []"
proof -
  from sc obtain cs tr3 log where
    c: "commit cfg tr (handed q) = Inr (tr3, log)"
    and q3: "q3 = q\<lparr>openTrees := (openTrees q)(i \<mapsto> tr3), chans := cs, handed := log\<rparr>"
    by (auto simp: signal_and_commit_def split: sum.splits prod.splits)
  from commit_hands [OF c] show ?thesis
    by (simp add: q3 idt pending_def)
qed

lemma InsertValues_threshold:
  assumes iv: "InsertValues cfg q i r = Inr (None, q')" and ok: "trees_ok cfg q"
      and thr: "CoalesceMaxPoints cfg \<le> int (length (pending q i @ r))"
  shows "handed q' = handed q @
           (if pending q i @ r = [] then [] else [(i, pending q i @ r)])
       \<and> pending q' i = []"
proof -
  from iv have en: "ClusterEnabled cfg \<and> WeHoldWriteLockFor cfg i"
    by (auto simp: InsertValues_def split: if_splits)
  from iv en obtain tr q1 where gt: "getTree cfg q i = Inr (tr, q1)"
    by (cases "getTree cfg q i") (auto simp: InsertValues_def)
  note g = getTree_props [OF gt ok]
  obtain tr1 q2 where sb: "start_batch i tr q1 = (tr1, q2)" by (cases "start_batch i tr q1")
  note sp = start_batch_props [OF sb]
  define tr2 where "tr2 = tr1\<lparr>store := Some (pend tr1 @ r)\<rparr>"
  have id2: "ot_id tr2 = i" using g sp by (simp add: tr2_def)
  have pt2: "pend tr2 = pend tr @ r" using sp by (simp add: tr2_def pend_def)
  have "pending q1 i = pend tr" using g by (simp add: pending_def)
  moreover have "pending q1 i = pending q i" using g by blast
  ultimately have pq: "pending q i = pend tr" by simp
  have q2h: "handed q2 = handed q" using sp g by simp
  have t2: "CoalesceMaxPoints cfg \<le> int (length (pend tr2))" using thr by (simp add: pq pt2)
  have sc: "signal_and_commit cfg q2 i tr2 = Inr q'"
    using iv en gt sb t2 unfolding tr2_def
    by (auto simp add: InsertValues_def Let_def split: sum.splits)
  from signal_and_commit_hands [OF sc id2] show ?thesis
    by (simp add: q2h pt2 pq)
qed

lemma run_append:
  "run cfg q (es @ fs) = (case run cfg q es of None \<Rightarrow> None | Some q' \<Rightarrow> run cfg q' fs)"
  by (induction es arbitrary: q) (simp_all split: option.splits)

lemma trees_ok_quasar0: "trees_ok cfg quasar0"
  by (simp add: trees_ok_def quasar0_def)

text \<open>
  Claim C9. The step relation is \<open>step\<close>: the calls of \<open>InsertValues\<close> and \<open>Flush\<close> and the
  steps of the timers, each under the mutex of its tree, in any order. In every state
  that a run from the empty \<open>Quasar\<close> reaches, the records that the tree engine has been
  given for a stream, in the order it got them, followed by those that wait in the
  open tree, are the records that were inserted, in the order they came: no record is
  handed over twice. A timer that commits hands over what waits at that moment, and
  nothing when the batch was committed before the timer had the mutex. A call of
  \<open>InsertValues\<close> that brings the waiting records to \<open>CoalesceMaxPoints\<close> hands them over
  in one batch. Both leave nothing waiting.
\<close>

theorem coalescer_hands_each_batch_once:
  assumes "run cfg quasar0 evs = Some q"
  shows "handed_to (handed q) ident @ pending q ident = inserted cfg evs ident
       \<and> (\<forall>k q'. timer_commits cfg q k = Some (Inr q') \<longrightarrow>
             handed q' = handed q @
               (if pending q (t_tree (timers q ! k)) = [] then []
                else [(t_tree (timers q ! k), pending q (t_tree (timers q ! k)))])
           \<and> pending q' (t_tree (timers q ! k)) = [])
       \<and> (\<forall>i r q'. InsertValues cfg q i r = Inr (None, q')
                   \<and> CoalesceMaxPoints cfg \<le> int (length (pending q i @ r)) \<longrightarrow>
             handed q' = handed q @
               (if pending q i @ r = [] then [] else [(i, pending q i @ r)])
           \<and> pending q' i = [])"
proof -
  note rc = run_conserve [OF assms trees_ok_quasar0, of ident]
  have ok: "trees_ok cfg q" using rc by simp
  have "handed_to (handed q) ident @ pending q ident = inserted cfg evs ident"
    using rc by (simp add: quasar0_def pending_def handed_to_def)
  moreover have "\<forall>k q'. timer_commits cfg q k = Some (Inr q') \<longrightarrow>
             handed q' = handed q @
               (if pending q (t_tree (timers q ! k)) = [] then []
                else [(t_tree (timers q ! k), pending q (t_tree (timers q ! k)))])
           \<and> pending q' (t_tree (timers q ! k)) = []"
    using timer_commits_hands [OF _ ok] by blast
  moreover have "\<forall>i r q'. InsertValues cfg q i r = Inr (None, q')
                   \<and> CoalesceMaxPoints cfg \<le> int (length (pending q i @ r)) \<longrightarrow>
             handed q' = handed q @
               (if pending q i @ r = [] then [] else [(i, pending q i @ r)])
           \<and> pending q' i = []"
    using InsertValues_threshold [OF _ ok] by blast
  ultimately show ?thesis by simp
qed

lemma run_fired: "run cfg_three quasar0 evs_fired = Some q_fired"
  by (simp add: evs_fired_def q_fired_def quasar0_def cfg_three_def InsertValues_def
      getTree_def start_batch_def pend_def timer_fires_def Let_def)

lemma InsertValues_race: "InsertValues cfg_three q_fired stream9 [3] = Inr (None, q_race)"
  by (simp add: q_fired_def q_race_def cfg_three_def InsertValues_def
      getTree_def start_batch_def signal_and_commit_def commit_def chan_send_def pend_def
      Let_def)

lemma run_race: "run cfg_three quasar0 evs_race = Some q_race"
  by (simp add: evs_race_def run_append run_fired InsertValues_race)

lemma timer_commits_race: "timer_commits cfg_three q_race 0 = Some (Inr q_race_end)"
  by (simp add: q_race_end_def q_race_def cfg_three_def timer_commits_def commit_def pend_def)

theorem coalescer_hands_each_batch_once_witness:
  "run cfg_three quasar0 evs_fired = Some q_fired
   \<and> InsertValues cfg_three q_fired stream9 [3] = Inr (None, q_race)
   \<and> run cfg_three quasar0 evs_race = Some q_race
   \<and> timer_commits cfg_three q_race 0 = Some (Inr q_race_end)
   \<and> pending q_fired stream9 = [1, 2]
   \<and> handed q_fired = []
   \<and> handed q_race = [(stream9, [1, 2, 3])]
   \<and> pending q_race stream9 = []
   \<and> inserted cfg_three evs_race stream9 = [1, 2, 3]
   \<and> handed_to (handed q_race) stream9 @ pending q_race stream9 = [1, 2, 3]
   \<and> handed q_race_end = [(stream9, [1, 2, 3])]
   \<and> pending q_race_end stream9 = []"
proof -
  note F = coalescer_hands_each_batch_once [OF run_fired, of stream9]
  note T = coalescer_hands_each_batch_once [OF run_race, of stream9]
  note T1 = T [THEN conjunct1]
  note T2 = T [THEN conjunct2, THEN conjunct1, THEN spec, THEN spec, THEN mp,
               OF timer_commits_race]
  have pf: "pending q_fired stream9 = [1, 2]" by (simp add: q_fired_def pending_def pend_def)
  have hf: "handed q_fired = []" by (simp add: q_fired_def)
  have thr: "CoalesceMaxPoints cfg_three \<le> int (length (pending q_fired stream9 @ [3]))"
    by (simp add: pf cfg_three_def)
  note F3 = F [THEN conjunct2, THEN conjunct2, THEN spec, THEN spec, THEN spec, THEN mp,
               OF conjI [OF InsertValues_race thr]]
  from F3 have h: "handed q_race = [(stream9, [1, 2, 3])]"
    and p: "pending q_race stream9 = []"
    by (simp_all add: pf hf)
  have i: "inserted cfg_three evs_race stream9 = [1, 2, 3]"
    by (simp add: evs_race_def evs_fired_def cfg_three_def)
  have t: "t_tree (timers q_race ! 0) = stream9" by (simp add: q_race_def)
  from T2 have e: "handed q_race_end = [(stream9, [1, 2, 3])]"
    and pe: "pending q_race_end stream9 = []"
    by (simp_all add: t p h)
  from T1 i have c: "handed_to (handed q_race) stream9 @ pending q_race stream9 = [1, 2, 3]"
    by simp
  show ?thesis
    by (intro conjI) (rule run_fired InsertValues_race run_race timer_commits_race
                        pf hf h p i c e pe)+
qed

end
